theory Spec2Isabelle
  imports Complex_Main "HOL-Library.Sublist"
begin

section \<open>The health-insight engine of \<^verbatim>\<open>frontend/src/lib/healthInsights.ts\<close>\<close>

text \<open>
  The module normalises a loosely typed onboarding record into a \<open>HealthSnapshot\<close>,
  scores it (\<open>summarizeStatus\<close>), and derives insights and specialist recommendations.
  Every function is pure; the embedding below follows the source function by function.

  Conventions of the embedding.
  \<^item> Text is a \<^typ>\<open>string\<close>. White space and letter case are those of ASCII: \<open>trim\<close>
    strips the characters 9 to 13 and 32, \<open>toLowerCase\<close> maps \<open>A\<close>..\<open>Z\<close> to \<open>a\<close>..\<open>z\<close>;
    characters outside ASCII are carried along unchanged (as their UTF-8 bytes).
  \<^item> A number is a \<open>jsnum\<close>: a finite value, \<open>NaN\<close>, or one of the two infinities. A finite
    value is given by a rational. The arithmetic operators \<open>*\<close> and \<open>/\<close> are those of
    IEEE 754 binary64: operands and result are rounded to the nearest double, ties to
    even, a result beyond the largest double is an infinity, and a result of tiny
    magnitude is a subnormal or zero. A decimal numeral (a literal of the source, or what
    \<open>Number\<close> reads from a string) is kept as the decimal it writes and stands for the
    double nearest to it. The sign of zero is not represented.
  \<^item> \<open>undefined\<close> (an absent field) is \<open>None\<close>.
\<close>

subsection \<open>Text primitives\<close>

definition isWhiteSpace :: "char \<Rightarrow> bool" where
  "isWhiteSpace c = (c \<in> set [CHR 0x09, CHR 0x0A, CHR 0x0B, CHR 0x0C, CHR 0x0D, CHR '' ''])"

definition trim :: "string \<Rightarrow> string" where
  "trim s = rev (dropWhile isWhiteSpace (rev (dropWhile isWhiteSpace s)))"

definition toLowerChar :: "char \<Rightarrow> char" where
  "toLowerChar c =
     (case map_of (zip ''ABCDEFGHIJKLMNOPQRSTUVWXYZ'' ''abcdefghijklmnopqrstuvwxyz'') c of
        Some l \<Rightarrow> l
      | None \<Rightarrow> c)"

definition toLowerCase :: "string \<Rightarrow> string" where
  "toLowerCase s = map toLowerChar s"

text \<open>\<open>text.includes(k)\<close>: \<open>k\<close> occurs in \<open>text\<close> as a contiguous run.\<close>

fun includes_str :: "string \<Rightarrow> string \<Rightarrow> bool" where
  "includes_str [] k = (k = [])"
| "includes_str (c # cs) k = (prefix k (c # cs) \<or> includes_str cs k)"

text \<open>\<open>s.replace(a, b)\<close> with a one-character pattern: only the first occurrence.\<close>

fun replaceFirst :: "char \<Rightarrow> char \<Rightarrow> string \<Rightarrow> string" where
  "replaceFirst a b [] = []"
| "replaceFirst a b (c # cs) = (if c = a then b # cs else c # replaceFirst a b cs)"

subsection \<open>Numbers\<close>

datatype jsnum = Fin rat | NaN | PosInf | NegInf

fun isFinite :: "jsnum \<Rightarrow> bool" where
  "isFinite (Fin _) = True"
| "isFinite _ = False"

text \<open>Truthiness of a number: \<open>0\<close> and \<open>NaN\<close> are falsy.\<close>

fun numTruthy :: "jsnum \<Rightarrow> bool" where
  "numTruthy (Fin x) = (x \<noteq> 0)"
| "numTruthy NaN = False"
| "numTruthy _ = True"

fun isNegative :: "jsnum \<Rightarrow> bool" where
  "isNegative (Fin x) = (x < 0)"
| "isNegative NegInf = True"
| "isNegative _ = False"

fun jsNeg :: "jsnum \<Rightarrow> jsnum" where
  "jsNeg (Fin x) = Fin (- x)"
| "jsNeg NaN = NaN"
| "jsNeg PosInf = NegInf"
| "jsNeg NegInf = PosInf"

definition signedInf :: "bool \<Rightarrow> jsnum" where
  "signedInf negative = (if negative then NegInf else PosInf)"

text \<open>
  Rounding to a double. For a positive \<open>a\<close> with \<open>2 ^ e \<le> a < 2 ^ (e + 1)\<close> the doubles
  around \<open>a\<close> are the multiples of \<open>2 ^ (e - 52)\<close>, and below \<open>2 ^ (- 1022)\<close> (the
  subnormal range) the multiples of \<open>2 ^ (- 1074)\<close>; \<open>a\<close> goes to the nearest multiple,
  to the even one on a tie, and to infinity when that multiple reaches \<open>2 ^ 1024\<close>.
\<close>

function powerBySquaring :: "rat \<Rightarrow> int \<Rightarrow> rat" where
  "powerBySquaring b e =
     (if e \<le> 0 then 1
      else if even e then powerBySquaring (b * b) (e div 2)
      else b * powerBySquaring (b * b) (e div 2))"
  by pat_completeness auto
termination
  by (relation "measure (\<lambda>(b, e). nat e)") auto

declare powerBySquaring.simps [simp del]

definition pow2 :: "int \<Rightarrow> rat" where
  "pow2 e = (if 0 \<le> e then powerBySquaring 2 e else 1 / powerBySquaring 2 (- e))"

function bitLength :: "int \<Rightarrow> int" where
  "bitLength n = (if n < 2 then 1 else 1 + bitLength (n div 2))"
  by pat_completeness auto
termination
  by (relation "measure nat") auto

declare bitLength.simps [simp del]

definition binaryExponent :: "rat \<Rightarrow> int" where
  "binaryExponent a =
     (if 1 \<le> a then bitLength \<lfloor>a\<rfloor> - 1
      else - bitLength (\<lceil>1 / a\<rceil> - 1))"

definition roundHalfEven :: "rat \<Rightarrow> int" where
  "roundHalfEven x =
     (let f = \<lfloor>x\<rfloor>;
          r = x - of_int f
      in if r < 1 / 2 then f
         else if 1 / 2 < r then f + 1
         else if even f then f
         else f + 1)"

definition roundToDouble :: "rat \<Rightarrow> jsnum" where
  "roundToDouble x =
     (if x = 0 then Fin 0
      else
        let a = \<bar>x\<bar>;
            e = max (binaryExponent a) (- 1022);
            q = pow2 (e - 52);
            r = of_int (roundHalfEven (a / q)) * q
        in if pow2 1024 \<le> r then signedInf (x < 0)
           else Fin (if x < 0 then - r else r))"

fun asDouble :: "jsnum \<Rightarrow> jsnum" where
  "asDouble (Fin x) = roundToDouble x"
| "asDouble v = v"

text \<open>The product and the quotient of two doubles.\<close>

fun mulDouble :: "jsnum \<Rightarrow> jsnum \<Rightarrow> jsnum" where
  "mulDouble NaN _ = NaN"
| "mulDouble _ NaN = NaN"
| "mulDouble (Fin a) (Fin b) = roundToDouble (a * b)"
| "mulDouble (Fin a) y = (if a = 0 then NaN else signedInf ((a < 0) \<noteq> isNegative y))"
| "mulDouble x (Fin b) = (if b = 0 then NaN else signedInf (isNegative x \<noteq> (b < 0)))"
| "mulDouble x y = signedInf (isNegative x \<noteq> isNegative y)"

fun divDouble :: "jsnum \<Rightarrow> jsnum \<Rightarrow> jsnum" where
  "divDouble NaN _ = NaN"
| "divDouble _ NaN = NaN"
| "divDouble (Fin a) (Fin b) =
     (if b \<noteq> 0 then roundToDouble (a / b) else if a = 0 then NaN else signedInf (a < 0))"
| "divDouble (Fin a) y = Fin 0"
| "divDouble x (Fin b) = signedInf (isNegative x \<noteq> (b < 0))"
| "divDouble x y = NaN"

definition jsMul :: "jsnum \<Rightarrow> jsnum \<Rightarrow> jsnum" where
  "jsMul x y = mulDouble (asDouble x) (asDouble y)"

definition jsDiv :: "jsnum \<Rightarrow> jsnum \<Rightarrow> jsnum" where
  "jsDiv x y = divDouble (asDouble x) (asDouble y)"

fun jsLt :: "jsnum \<Rightarrow> jsnum \<Rightarrow> bool" where
  "jsLt (Fin a) (Fin b) = (a < b)"
| "jsLt (Fin a) PosInf = True"
| "jsLt NegInf (Fin b) = True"
| "jsLt NegInf PosInf = True"
| "jsLt _ _ = False"

definition jsLe :: "jsnum \<Rightarrow> jsnum \<Rightarrow> bool" where
  "jsLe x y = (jsLt x y \<or> (x = y \<and> x \<noteq> NaN))"

definition jsGt :: "jsnum \<Rightarrow> jsnum \<Rightarrow> bool" where
  "jsGt x y = jsLt y x"

definition jsGe :: "jsnum \<Rightarrow> jsnum \<Rightarrow> bool" where
  "jsGe x y = jsLe y x"

subsection \<open>\<open>Number(string)\<close>\<close>

text \<open>
  The runtime's conversion of a string to a number: surrounding white space is
  ignored, the empty string is \<open>0\<close>, then either a decimal literal (optional sign,
  \<open>Infinity\<close> or digits with optional fraction and exponent) or an unsigned
  hexadecimal, octal or binary integer literal; anything else is \<open>NaN\<close>.
\<close>

definition digitValue :: "char \<Rightarrow> int" where
  "digitValue c =
     (case map_of (zip ''0123456789abcdef'' [0, 1, 2, 3, 4, 5, 6, 7, 8, 9, 10, 11, 12, 13, 14, 15])
             (toLowerChar c) of
        Some v \<Rightarrow> v
      | None \<Rightarrow> 16)"

definition isDigitIn :: "int \<Rightarrow> char \<Rightarrow> bool" where
  "isDigitIn base c = (digitValue c < base)"

abbreviation isDigit :: "char \<Rightarrow> bool" where
  "isDigit \<equiv> isDigitIn 10"

definition digitsValue :: "int \<Rightarrow> string \<Rightarrow> int" where
  "digitsValue base ds = foldl (\<lambda>acc c. acc * base + digitValue c) 0 ds"

definition pow10 :: "int \<Rightarrow> rat" where
  "pow10 e = (if 0 \<le> e then 10 ^ nat e else 1 / 10 ^ nat (- e))"

definition parseExponent :: "string \<Rightarrow> int option" where
  "parseExponent s =
     (case s of
        [] \<Rightarrow> Some 0
      | c # r \<Rightarrow>
          if c = CHR ''e'' \<or> c = CHR ''E'' then
            (let negative = (r \<noteq> [] \<and> hd r = CHR ''-'');
                 ds = (if r \<noteq> [] \<and> (hd r = CHR ''-'' \<or> hd r = CHR ''+'') then tl r else r)
             in if ds \<noteq> [] \<and> list_all isDigit ds
                then Some ((if negative then - 1 else 1) * digitsValue 10 ds)
                else None)
          else None)"

definition strUnsignedDecimalLiteral :: "string \<Rightarrow> jsnum" where
  "strUnsignedDecimalLiteral s =
     (if s = ''Infinity'' then PosInf
      else
        let ip = takeWhile isDigit s;
            r1 = dropWhile isDigit s;
            hasDot = (r1 \<noteq> [] \<and> hd r1 = CHR ''.'');
            fp = (if hasDot then takeWhile isDigit (tl r1) else []);
            r2 = (if hasDot then dropWhile isDigit (tl r1) else r1)
        in if ip = [] \<and> fp = [] then NaN
           else case parseExponent r2 of
                  None \<Rightarrow> NaN
                | Some e \<Rightarrow>
                    Fin ((of_int (digitsValue 10 ip) + of_int (digitsValue 10 fp) / 10 ^ length fp)
                         * pow10 e))"

definition strDecimalLiteral :: "string \<Rightarrow> jsnum" where
  "strDecimalLiteral s =
     (case s of
        [] \<Rightarrow> NaN
      | c # r \<Rightarrow>
          if c = CHR ''+'' then strUnsignedDecimalLiteral r
          else if c = CHR ''-'' then jsNeg (strUnsignedDecimalLiteral r)
          else strUnsignedDecimalLiteral s)"

definition nonDecimalIntegerLiteral :: "string \<Rightarrow> jsnum option" where
  "nonDecimalIntegerLiteral s =
     (case s of
        c0 # c1 # ds \<Rightarrow>
          (let base = (if toLowerChar c1 = CHR ''x'' then 16
                       else if toLowerChar c1 = CHR ''o'' then 8
                       else if toLowerChar c1 = CHR ''b'' then 2 else (0::int))
           in if c0 = CHR ''0'' \<and> base \<noteq> 0 \<and> ds \<noteq> [] \<and> list_all (isDigitIn base) ds
              then Some (Fin (of_int (digitsValue base ds)))
              else None)
      | _ \<Rightarrow> None)"

definition Number :: "string \<Rightarrow> jsnum" where
  "Number s =
     (let t = trim s
      in if t = [] then Fin 0
         else case nonDecimalIntegerLiteral t of
                Some v \<Rightarrow> v
              | None \<Rightarrow> strDecimalLiteral t)"

subsection \<open>\<open>String(number)\<close> and \<open>toFixed\<close>\<close>

definition digitChar :: "int \<Rightarrow> char" where
  "digitChar d = ''0123456789'' ! nat d"

function digitsOf :: "int \<Rightarrow> string" where
  "digitsOf n = (if n < 10 then [digitChar n] else digitsOf (n div 10) @ [digitChar (n mod 10)])"
  by pat_completeness auto
termination
  by (relation "measure nat") auto

declare digitsOf.simps [simp del]

definition stripTrailingZeros :: "string \<Rightarrow> string" where
  "stripTrailingZeros ds = rev (dropWhile (\<lambda>c. c = CHR ''0'') (rev ds))"

text \<open>The decimal exponent \<open>e\<close> of a positive value: \<open>10 ^ e \<le> x < 10 ^ (e + 1)\<close>.\<close>

definition decimalExponent :: "rat \<Rightarrow> int" where
  "decimalExponent x =
     (if 1 \<le> x then int (length (digitsOf \<lfloor>x\<rfloor>)) - 1
      else - int (length (digitsOf (\<lceil>1 / x\<rceil> - 1))))"

text \<open>
  The runtime prints the shortest digit string \<open>s\<close> (of \<open>k\<close> digits) and the exponent
  \<open>n\<close> with \<open>s * 10 ^ (n - k)\<close> the value, never more than 17 digits; here the value is
  rounded to 17 significant digits and trailing zeros are dropped. The four layouts are
  those of the language definition.
\<close>

definition positiveToString :: "rat \<Rightarrow> string" where
  "positiveToString x =
     (let e0 = decimalExponent x;
          m0 = \<lfloor>x / pow10 (e0 - 16) + 1 / 2\<rfloor>;
          m = (if 10 ^ 17 \<le> m0 then m0 div 10 else m0);
          e = (if 10 ^ 17 \<le> m0 then e0 + 1 else e0);
          s = stripTrailingZeros (digitsOf m);
          k = int (length s);
          n = e + 1
      in if k \<le> n \<and> n \<le> 21 then s @ replicate (nat (n - k)) (CHR ''0'')
         else if 0 < n \<and> n \<le> 21 then take (nat n) s @ ''.'' @ drop (nat n) s
         else if - 6 < n \<and> n \<le> 0 then ''0.'' @ replicate (nat (- n)) (CHR ''0'') @ s
         else
           let ex = (if n - 1 < 0 then CHR ''-'' else CHR ''+'') # digitsOf \<bar>n - 1\<bar>
           in if k = 1 then s @ ''e'' @ ex
              else take 1 s @ ''.'' @ drop 1 s @ ''e'' @ ex)"

definition numToString :: "jsnum \<Rightarrow> string" where
  "numToString v =
     (case v of
        NaN \<Rightarrow> ''NaN''
      | PosInf \<Rightarrow> ''Infinity''
      | NegInf \<Rightarrow> ''-Infinity''
      | Fin x \<Rightarrow>
          if x = 0 then ''0''
          else if x < 0 then CHR ''-'' # positiveToString (- x)
          else positiveToString x)"

text \<open>
  \<open>x.toFixed(f)\<close>: the integer \<open>n\<close> with \<open>n / 10 ^ f\<close> closest to \<open>|x|\<close> (the larger one on
  a tie), printed with \<open>f\<close> digits after the point; values of magnitude \<open>10 ^ 21\<close> and
  more are printed as \<open>String\<close> prints them.
\<close>

definition toFixed :: "nat \<Rightarrow> jsnum \<Rightarrow> string" where
  "toFixed f v =
     (case v of
        Fin x \<Rightarrow>
          (let sign = (if x < 0 then ''-'' else '''');
               a = \<bar>x\<bar>
           in if 10 ^ 21 \<le> a then sign @ numToString (Fin a)
              else
                let n = \<lfloor>a * 10 ^ f + 1 / 2\<rfloor>;
                    m = digitsOf n;
                    padded = (if f \<noteq> 0 \<and> length m \<le> f
                              then replicate (f + 1 - length m) (CHR ''0'') @ m else m);
                    k = length padded
                in if f \<noteq> 0 then sign @ take (k - f) padded @ ''.'' @ drop (k - f) padded
                   else sign @ padded)
      | _ \<Rightarrow> numToString v)"

subsection \<open>Raw values and the two coercions\<close>

text \<open>
  A value of the untyped onboarding record. \<open>JOther\<close> stands for every value whose
  \<open>typeof\<close> is neither \<open>string\<close> nor \<open>number\<close> nor \<open>boolean\<close> (objects, arrays, functions).
\<close>

datatype jsval = JUndefined | JNull | JBool bool | JNum jsnum | JStr string | JOther

type_synonym rawRecord = "string \<rightharpoonup> jsval"

definition field :: "rawRecord \<Rightarrow> string \<Rightarrow> jsval" where
  "field data k = (case data k of None \<Rightarrow> JUndefined | Some v \<Rightarrow> v)"

fun stringVal :: "jsval \<Rightarrow> string option" where
  "stringVal (JStr s) = (if trim s = [] then None else Some (trim s))"
| "stringVal (JNum x) = (if isFinite x then Some (numToString x) else None)"
| "stringVal _ = None"

fun numberVal :: "jsval \<Rightarrow> jsnum option" where
  "numberVal (JNum x) = (if isFinite x then Some x else None)"
| "numberVal (JStr s) = (let num = Number (trim s) in if isFinite num then Some num else None)"
| "numberVal _ = None"

subsection \<open>Body-mass index\<close>

definition computeBMI :: "jsnum option \<Rightarrow> jsnum option \<Rightarrow> jsnum option" where
  "computeBMI heightCm weightKg =
     (case (heightCm, weightKg) of
        (Some h, Some w) \<Rightarrow>
          if \<not> numTruthy h \<or> \<not> numTruthy w then None
          else
            let heightM = jsDiv h (Fin 100)
            in if jsLe heightM (Fin 0) then None
               else
                 let bmi = jsDiv w (jsMul heightM heightM)
                 in if isFinite bmi then Some (Number (toFixed 1 bmi)) else None
      | _ \<Rightarrow> None)"

subsection \<open>The snapshot\<close>

text \<open>
  \<open>HealthSnapshot\<close> is the type \<open>HealthOnboardingPayload\<close> of the onboarding component:
  \<open>full_name\<close> is required, every other field is optional.
\<close>

record HealthSnapshot =
  full_name :: string
  age :: "jsnum option"
  sex :: "string option"
  height :: "jsnum option"
  weight :: "jsnum option"
  blood_type :: "string option"
  allergies :: "string option"
  conditions :: "string option"
  medications :: "string option"
  medical_history :: "string option"
  past_reports :: "string option"
  prescriptions :: "string option"
  symptoms_current :: "string option"
  symptoms_past :: "string option"
  location :: "string option"
  smoking_status :: "string option"
  alcohol_consumption :: "string option"
  exercise_frequency :: "string option"
  diet_type :: "string option"
  sleep_hours :: "jsnum option"
  stress_level :: "string option"
  family_history :: "string option"
  health_goals :: "string option"
  emergency_contact_name :: "string option"
  emergency_contact_phone :: "string option"
  blood_pressure :: "string option"
  heart_rate :: "jsnum option"
  temperature_c :: "jsnum option"
  spo2 :: "jsnum option"
  diagnosis :: "string option"
  treatment_plan :: "string option"
  doctor_notes :: "string option"

definition normalizeOnboardingData :: "rawRecord option \<Rightarrow> HealthSnapshot" where
  "normalizeOnboardingData raw =
     (let data = (case raw of None \<Rightarrow> Map.empty | Some r \<Rightarrow> r)
      in \<lparr> full_name = (case stringVal (field data ''full_name'') of None \<Rightarrow> [] | Some s \<Rightarrow> s),
           age = numberVal (field data ''age''),
           sex = stringVal (field data ''sex''),
           height = numberVal (field data ''height''),
           weight = numberVal (field data ''weight''),
           blood_type = stringVal (field data ''blood_type''),
           allergies = stringVal (field data ''allergies''),
           conditions = stringVal (field data ''conditions''),
           medications = stringVal (field data ''medications''),
           medical_history = stringVal (field data ''medical_history''),
           past_reports = stringVal (field data ''past_reports''),
           prescriptions = stringVal (field data ''prescriptions''),
           symptoms_current = stringVal (field data ''symptoms_current''),
           symptoms_past = stringVal (field data ''symptoms_past''),
           location = stringVal (field data ''location''),
           smoking_status = stringVal (field data ''smoking_status''),
           alcohol_consumption = stringVal (field data ''alcohol_consumption''),
           exercise_frequency = stringVal (field data ''exercise_frequency''),
           diet_type = stringVal (field data ''diet_type''),
           sleep_hours = numberVal (field data ''sleep_hours''),
           stress_level = stringVal (field data ''stress_level''),
           family_history = stringVal (field data ''family_history''),
           health_goals = stringVal (field data ''health_goals''),
           emergency_contact_name = stringVal (field data ''emergency_contact_name''),
           emergency_contact_phone = stringVal (field data ''emergency_contact_phone''),
           blood_pressure = stringVal (field data ''blood_pressure''),
           heart_rate = numberVal (field data ''heart_rate''),
           temperature_c = numberVal (field data ''temperature_c''),
           spo2 = numberVal (field data ''spo2''),
           diagnosis = None,
           treatment_plan = None,
           doctor_notes = None \<rparr>)"

text \<open>
  A snapshot handed back to the normaliser is read as a record again: a present field
  is its value, an absent one is \<open>undefined\<close>.
\<close>

definition strField :: "string option \<Rightarrow> jsval" where
  "strField v = (case v of None \<Rightarrow> JUndefined | Some s \<Rightarrow> JStr s)"

definition numField :: "jsnum option \<Rightarrow> jsval" where
  "numField v = (case v of None \<Rightarrow> JUndefined | Some x \<Rightarrow> JNum x)"

definition asRecord :: "HealthSnapshot \<Rightarrow> rawRecord" where
  "asRecord d =
     map_of
       [(''full_name'', JStr (full_name d)),
        (''age'', numField (age d)),
        (''sex'', strField (sex d)),
        (''height'', numField (height d)),
        (''weight'', numField (weight d)),
        (''blood_type'', strField (blood_type d)),
        (''allergies'', strField (allergies d)),
        (''conditions'', strField (conditions d)),
        (''medications'', strField (medications d)),
        (''medical_history'', strField (medical_history d)),
        (''past_reports'', strField (past_reports d)),
        (''prescriptions'', strField (prescriptions d)),
        (''symptoms_current'', strField (symptoms_current d)),
        (''symptoms_past'', strField (symptoms_past d)),
        (''location'', strField (location d)),
        (''smoking_status'', strField (smoking_status d)),
        (''alcohol_consumption'', strField (alcohol_consumption d)),
        (''exercise_frequency'', strField (exercise_frequency d)),
        (''diet_type'', strField (diet_type d)),
        (''sleep_hours'', numField (sleep_hours d)),
        (''stress_level'', strField (stress_level d)),
        (''family_history'', strField (family_history d)),
        (''health_goals'', strField (health_goals d)),
        (''emergency_contact_name'', strField (emergency_contact_name d)),
        (''emergency_contact_phone'', strField (emergency_contact_phone d)),
        (''blood_pressure'', strField (blood_pressure d)),
        (''heart_rate'', numField (heart_rate d)),
        (''temperature_c'', numField (temperature_c d)),
        (''spo2'', numField (spo2 d)),
        (''diagnosis'', strField (diagnosis d)),
        (''treatment_plan'', strField (treatment_plan d)),
        (''doctor_notes'', strField (doctor_notes d))]"

text \<open>The snapshot with only \<open>full_name\<close> set, from which concrete inputs are built.\<close>

definition emptySnapshot :: HealthSnapshot where
  "emptySnapshot =
     \<lparr> full_name = [], age = None, sex = None, height = None, weight = None,
       blood_type = None, allergies = None, conditions = None, medications = None,
       medical_history = None, past_reports = None, prescriptions = None,
       symptoms_current = None, symptoms_past = None, location = None,
       smoking_status = None, alcohol_consumption = None, exercise_frequency = None,
       diet_type = None, sleep_hours = None, stress_level = None, family_history = None,
       health_goals = None, emergency_contact_name = None, emergency_contact_phone = None,
       blood_pressure = None, heart_rate = None, temperature_c = None, spo2 = None,
       diagnosis = None, treatment_plan = None, doctor_notes = None \<rparr>"

subsection \<open>Risk scoring\<close>

text \<open>\<open>!text\<close> holds for an absent and for an empty text; the keywords are lower case.\<close>

definition hasKeyword :: "string option \<Rightarrow> string list \<Rightarrow> bool" where
  "hasKeyword text keywords =
     (case text of
        None \<Rightarrow> False
      | Some t \<Rightarrow>
          if t = [] then False
          else let lower = toLowerCase t in list_ex (\<lambda>k. includes_str lower k) keywords)"

text \<open>\<open>v !== undefined && p(v)\<close>\<close>

definition definedAnd :: "'a option \<Rightarrow> ('a \<Rightarrow> bool) \<Rightarrow> bool" where
  "definedAnd v p = (case v of None \<Rightarrow> False | Some x \<Rightarrow> p x)"

datatype riskLevel = Good | Watch | Action

record RiskAssessment =
  level :: riskLevel
  summary :: string
  bmi :: "jsnum option"
  reasons :: "string list"

text \<open>
  The two local variables \<open>score\<close> and \<open>reasons\<close> of \<open>summarizeStatus\<close> are a pair that
  each triggered check updates: \<open>score += delta; reasons.push(reason)\<close>.
\<close>

definition flag :: "int \<Rightarrow> string \<Rightarrow> int \<times> string list \<Rightarrow> int \<times> string list" where
  "flag delta reason st = (fst st + delta, snd st @ [reason])"

definition riskChecks :: "HealthSnapshot \<Rightarrow> int \<times> string list" where
  "riskChecks data =
     (let bmi = computeBMI (height data) (weight data);
          s0 = (0, []);
          s1 = (case bmi of
                  None \<Rightarrow> s0
                | Some b \<Rightarrow>
                    if numTruthy b then
                      if jsGe b (Fin 30) then flag 2 ''BMI in obese range'' s0
                      else if jsGe b (Fin 25) then flag 1 ''BMI in overweight range'' s0
                      else s0
                    else s0);
          s2 = (if definedAnd (sleep_hours data) (\<lambda>h. jsLt h (Fin 6))
                then flag 1 ''Low sleep (<6h)'' s1 else s1);
          s3 = (if stress_level data = Some ''high'' \<or> stress_level data = Some ''very_high''
                then flag 1 ''Elevated stress'' s2 else s2);
          s4 = (if smoking_status data = Some ''regular'' then flag 2 ''Smoking habit'' s3
                else if smoking_status data = Some ''occasional''
                        \<or> smoking_status data = Some ''former''
                then flag 1 ''Smoking history'' s3
                else s3);
          s5 = (if alcohol_consumption data = Some ''heavy''
                then flag 2 ''Heavy alcohol intake'' s4
                else if alcohol_consumption data = Some ''moderate''
                then flag 1 ''Moderate alcohol intake'' s4
                else s4);
          s6 = (if definedAnd (heart_rate data) (\<lambda>r. jsGt r (Fin 100))
                then flag 1 ''Elevated heart rate'' s5 else s5);
          s7 = (if definedAnd (temperature_c data) (\<lambda>t. jsGe t (Fin (378 / 10)))
                then flag 1 ''Fever-range temperature'' s6 else s6);
          s8 = (if definedAnd (spo2 data) (\<lambda>p. jsLt p (Fin 94))
                then flag 1 ''Low oxygen saturation'' s7 else s7);
          s9 = (if hasKeyword (family_history data) [''heart'', ''cardiac'', ''stroke'']
                then flag 1 ''Cardiovascular family history'' s8 else s8);
          s10 = (if hasKeyword (conditions data) [''diab'', ''hypertension'', ''bp'', ''blood pressure'']
                 then flag 1 ''Chronic condition risk'' s9 else s9)
      in s10)"

definition levelOf :: "int \<Rightarrow> riskLevel" where
  "levelOf score = (if 4 \<le> score then Action else if 2 \<le> score then Watch else Good)"

definition summaryOf :: "riskLevel \<Rightarrow> string" where
  "summaryOf l =
     (if l = Good then ''Stable baseline with no major red flags detected.''
      else if l = Watch then ''Some risk factors detected. Monitor and address them proactively.''
      else ''Multiple risk factors detected. Consider clinician follow-up.'')"

definition summarizeStatus :: "HealthSnapshot \<Rightarrow> RiskAssessment" where
  "summarizeStatus data =
     (let bmi = computeBMI (height data) (weight data);
          st = riskChecks data;
          level = levelOf (fst st);
          summary = summaryOf level
      in \<lparr> level = level, summary = summary, bmi = bmi, reasons = snd st \<rparr>)"

subsection \<open>Insights\<close>

datatype severity = Low | Medium | High

record HealthInsight =
  title :: string
  detail :: string
  action :: string
  severity :: severity

text \<open>The characters of the message texts that lie outside ASCII, as UTF-8.\<close>

definition emDash :: string where
  "emDash = [CHR 0xE2, CHR 0x80, CHR 0x94]"

definition enDash :: string where
  "enDash = [CHR 0xE2, CHR 0x80, CHR 0x93]"

definition degreeSign :: string where
  "degreeSign = [CHR 0xC2, CHR 0xB0]"

definition subscriptTwo :: string where
  "subscriptTwo = [CHR 0xE2, CHR 0x82, CHR 0x82]"

text \<open>A value interpolated into a template string; an absent one prints as \<open>undefined\<close>.\<close>

definition showNum :: "jsnum option \<Rightarrow> string" where
  "showNum v = (case v of None \<Rightarrow> ''undefined'' | Some x \<Rightarrow> numToString x)"

definition showStr :: "string option \<Rightarrow> string" where
  "showStr v = (case v of None \<Rightarrow> ''undefined'' | Some s \<Rightarrow> s)"

definition strTruthy :: "string option \<Rightarrow> bool" where
  "strTruthy v = (case v of None \<Rightarrow> False | Some s \<Rightarrow> s \<noteq> [])"

definition push :: "'a list \<Rightarrow> 'a \<Rightarrow> 'a list" where
  "push xs x = xs @ [x]"

definition overallInsight :: "RiskAssessment \<Rightarrow> HealthInsight" where
  "overallInsight status =
     \<lparr> title = ''Overall status'',
       detail = summary status,
       action =
         (if level status = Action
          then ''Schedule a clinician review to address the highlighted risks.''
          else if level status = Watch
          then ''Track metrics weekly and adjust lifestyle factors.''
          else ''Maintain current habits and continue periodic check-ins.''),
       severity =
         (if level status = Action then High else if level status = Watch then Medium else Low) \<rparr>"

definition bodyCompositionInsight :: "jsnum \<Rightarrow> HealthInsight" where
  "bodyCompositionInsight b =
     (let cat = (if jsGe b (Fin 30) then ''obese''
                 else if jsGe b (Fin 25) then ''overweight''
                 else if jsLt b (Fin (185 / 10)) then ''underweight''
                 else ''healthy'');
          sev = (if cat = ''healthy'' then Low else if cat = ''overweight'' then Medium else High)
      in \<lparr> title = ''Body composition'',
           detail = ''BMI '' @ numToString b @ '' ('' @ cat @ '').'',
           action =
             (if cat = ''healthy'' then ''Keep balanced nutrition and activity levels.''
              else ''Aim for gradual changes (sleep, nutrition, activity); consider a clinician or dietitian check-in.''),
           severity = sev \<rparr>)"

definition sleepInsight :: "HealthSnapshot \<Rightarrow> HealthInsight" where
  "sleepInsight data =
     \<lparr> title = ''Sleep hygiene'',
       detail = ''Average sleep '' @ showNum (sleep_hours data) @ ''h '' @ emDash
                @ '' below the 7'' @ enDash @ ''9h target.'',
       action = ''Set a regular schedule, reduce caffeine late day, and wind-down 60 minutes before bed.'',
       severity = (if definedAnd (sleep_hours data) (\<lambda>h. jsLt h (Fin 6)) then High else Medium) \<rparr>"

definition heartRateInsight :: "HealthSnapshot \<Rightarrow> HealthInsight" where
  "heartRateInsight data =
     \<lparr> title = ''Heart rate'',
       detail = ''Resting heart rate '' @ showNum (heart_rate data) @ '' bpm '' @ emDash
                @ '' above normal range.'',
       action = ''If persistent, discuss with a clinician; check hydration, caffeine, and stress.'',
       severity = Medium \<rparr>"

definition feverInsight :: "HealthSnapshot \<Rightarrow> HealthInsight" where
  "feverInsight data =
     \<lparr> title = ''Fever signal'',
       detail = ''Temperature '' @ showNum (temperature_c data) @ degreeSign @ ''C.'',
       action = ''Monitor symptoms and seek care if fever persists or worsens.'',
       severity = Medium \<rparr>"

definition oxygenInsight :: "HealthSnapshot \<Rightarrow> HealthInsight" where
  "oxygenInsight data =
     \<lparr> title = ''Oxygen saturation'',
       detail = ''SpO'' @ subscriptTwo @ '' '' @ showNum (spo2 data) @ ''% '' @ emDash
                @ '' below typical baseline.'',
       action = ''If symptomatic (e.g., breathlessness), consider urgent evaluation.'',
       severity = High \<rparr>"

definition symptomsInsight :: "HealthSnapshot \<Rightarrow> HealthInsight" where
  "symptomsInsight data =
     \<lparr> title = ''Current symptoms'',
       detail = showStr (symptoms_current data),
       action = ''Used to triage and tailor recommendations.'',
       severity = Medium \<rparr>"

definition stressInsight :: "HealthSnapshot \<Rightarrow> HealthInsight" where
  "stressInsight data =
     \<lparr> title = ''Stress load'',
       detail = ''Reported stress: ''
                @ showStr (map_option (replaceFirst (CHR ''_'') (CHR '' '')) (stress_level data)),
       action = ''Integrate brief daily decompression (breathing, walks) and consider speaking with a counselor.'',
       severity = Medium \<rparr>"

definition activityInsight :: "HealthSnapshot \<Rightarrow> HealthInsight" where
  "activityInsight data =
     \<lparr> title = ''Activity level'',
       detail = ''Exercise: '' @ showStr (exercise_frequency data) @ ''.'',
       action = ''Target 150 minutes/week of moderate activity; start with 10'' @ enDash
                @ ''20 minute walks most days.'',
       severity = Medium \<rparr>"

definition tobaccoInsight :: "HealthSnapshot \<Rightarrow> HealthInsight" where
  "tobaccoInsight data =
     \<lparr> title = ''Tobacco risk'',
       detail = ''Smoking status: '' @ showStr (smoking_status data) @ ''.'',
       action = ''Discuss cessation aids and lung screening timeline with a clinician.'',
       severity = (if smoking_status data = Some ''regular'' then High else Medium) \<rparr>"

definition alcoholInsight :: "HealthSnapshot \<Rightarrow> HealthInsight" where
  "alcoholInsight data =
     \<lparr> title = ''Alcohol use'',
       detail = ''Alcohol intake: '' @ showStr (alcohol_consumption data) @ ''.'',
       action = ''Limit to within recommended guidelines; consider alcohol-free days each week.'',
       severity = (if alcohol_consumption data = Some ''heavy'' then High else Medium) \<rparr>"

definition familyInsight :: HealthInsight where
  "familyInsight =
     \<lparr> title = ''Family history flags'',
       detail = ''Family history includes cardiovascular or cancer risk.'',
       action = ''Share this with your primary doctor; adhere to screening intervals earlier where indicated.'',
       severity = Medium \<rparr>"

definition conditionsInsight :: "HealthSnapshot \<Rightarrow> HealthInsight" where
  "conditionsInsight data =
     \<lparr> title = ''Chronic conditions'',
       detail = ''Reported: '' @ showStr (conditions data) @ ''.'',
       action = ''Ensure medications are reconciled and monitoring plans are in place.'',
       severity = Medium \<rparr>"

text \<open>The condition under which each optional insight is pushed, as the source tests it.\<close>

definition bodyCompositionCond :: "HealthSnapshot \<Rightarrow> bool" where
  "bodyCompositionCond data = definedAnd (bmi (summarizeStatus data)) numTruthy"

definition sleepCond :: "HealthSnapshot \<Rightarrow> bool" where
  "sleepCond data = definedAnd (sleep_hours data) (\<lambda>h. jsLt h (Fin 7))"

definition heartRateCond :: "HealthSnapshot \<Rightarrow> bool" where
  "heartRateCond data = definedAnd (heart_rate data) (\<lambda>r. jsGt r (Fin 100))"

definition feverCond :: "HealthSnapshot \<Rightarrow> bool" where
  "feverCond data = definedAnd (temperature_c data) (\<lambda>t. jsGe t (Fin (378 / 10)))"

definition oxygenCond :: "HealthSnapshot \<Rightarrow> bool" where
  "oxygenCond data = definedAnd (spo2 data) (\<lambda>p. jsLt p (Fin 94))"

definition symptomsCond :: "HealthSnapshot \<Rightarrow> bool" where
  "symptomsCond data = strTruthy (symptoms_current data)"

definition stressCond :: "HealthSnapshot \<Rightarrow> bool" where
  "stressCond data = (stress_level data = Some ''high'' \<or> stress_level data = Some ''very_high'')"

definition activityCond :: "HealthSnapshot \<Rightarrow> bool" where
  "activityCond data =
     (strTruthy (exercise_frequency data)
      \<and> definedAnd (exercise_frequency data) (\<lambda>e. List.member [''sedentary'', ''light''] e))"

definition tobaccoCond :: "HealthSnapshot \<Rightarrow> bool" where
  "tobaccoCond data =
     (smoking_status data = Some ''regular'' \<or> smoking_status data = Some ''occasional'')"

definition alcoholCond :: "HealthSnapshot \<Rightarrow> bool" where
  "alcoholCond data =
     (alcohol_consumption data = Some ''heavy'' \<or> alcohol_consumption data = Some ''moderate'')"

definition familyCond :: "HealthSnapshot \<Rightarrow> bool" where
  "familyCond data = hasKeyword (family_history data) [''heart'', ''stroke'', ''cancer'']"

definition conditionsCond :: "HealthSnapshot \<Rightarrow> bool" where
  "conditionsCond data = strTruthy (conditions data)"

definition buildInsights :: "HealthSnapshot \<Rightarrow> HealthInsight list" where
  "buildInsights data =
     (let status = summarizeStatus data;
          i0 = push [] (overallInsight status);
          i1 = (case bmi status of
                  None \<Rightarrow> i0
                | Some b \<Rightarrow> if numTruthy b then push i0 (bodyCompositionInsight b) else i0);
          i2 = (if sleepCond data then push i1 (sleepInsight data) else i1);
          i3 = (if heartRateCond data then push i2 (heartRateInsight data) else i2);
          i4 = (if feverCond data then push i3 (feverInsight data) else i3);
          i5 = (if oxygenCond data then push i4 (oxygenInsight data) else i4);
          i6 = (if symptomsCond data then push i5 (symptomsInsight data) else i5);
          i7 = (if stressCond data then push i6 (stressInsight data) else i6);
          i8 = (if activityCond data then push i7 (activityInsight data) else i7);
          i9 = (if tobaccoCond data then push i8 (tobaccoInsight data) else i8);
          i10 = (if alcoholCond data then push i9 (alcoholInsight data) else i9);
          i11 = (if familyCond data then push i10 familyInsight else i10);
          i12 = (if conditionsCond data then push i11 (conditionsInsight data) else i11)
      in i12)"

subsection \<open>Recommendations\<close>

record Recommendation =
  specialty :: string
  title :: string
  reason :: string
  urgency :: severity

text \<open>\<open>add\<close>: push unless an entry of the same specialty is already there.\<close>

definition add :: "Recommendation list \<Rightarrow> Recommendation \<Rightarrow> Recommendation list" where
  "add recs rec =
     (if find (\<lambda>r. specialty r = specialty rec) recs = None then push recs rec else recs)"

definition symptomText :: "HealthSnapshot \<Rightarrow> string" where
  "symptomText data =
     (case symptoms_current data of
        Some s \<Rightarrow> s
      | None \<Rightarrow>
          (case conditions data of
             Some c \<Rightarrow> c
           | None \<Rightarrow> (case symptoms_past data of Some p \<Rightarrow> p | None \<Rightarrow> [])))"

definition cardiologyCond :: "HealthSnapshot \<Rightarrow> bool" where
  "cardiologyCond data =
     (hasKeyword (Some (symptomText data)) [''chest pain'', ''shortness of breath'', ''palpitations'']
      \<or> hasKeyword (family_history data) [''heart'', ''cardiac'']
      \<or> hasKeyword (conditions data) [''hypertension''])"

definition cardiologyRec :: "HealthSnapshot \<Rightarrow> Recommendation" where
  "cardiologyRec data =
     \<lparr> specialty = ''Cardiology'',
       title = ''Cardiology consult'',
       reason = ''Cardio risk signals (symptoms or family history).'',
       urgency = (if hasKeyword (Some (symptomText data)) [''chest pain'', ''shortness of breath'']
                  then High else Medium) \<rparr>"

definition pulmonologyCond :: "HealthSnapshot \<Rightarrow> bool" where
  "pulmonologyCond data =
     (hasKeyword (Some (symptomText data)) [''cough'', ''wheez'', ''asthma'']
      \<or> smoking_status data = Some ''regular'')"

definition pulmonologyRec :: "HealthSnapshot \<Rightarrow> Recommendation" where
  "pulmonologyRec data =
     \<lparr> specialty = ''Pulmonology'',
       title = ''Lung health review'',
       reason = ''Respiratory symptoms or smoking history.'',
       urgency = (if smoking_status data = Some ''regular'' then Medium else Low) \<rparr>"

definition endocrinologyCond :: "HealthSnapshot \<Rightarrow> bool" where
  "endocrinologyCond data =
     (hasKeyword (Some (symptomText data)) [''blood sugar'', ''glucose'']
      \<or> hasKeyword (conditions data) [''diab''])"

definition endocrinologyRec :: Recommendation where
  "endocrinologyRec =
     \<lparr> specialty = ''Endocrinology'',
       title = ''Metabolic check'',
       reason = ''Metabolic flags (diabetes or glucose concerns).'',
       urgency = Medium \<rparr>"

definition behavioralCond :: "HealthSnapshot \<Rightarrow> bool" where
  "behavioralCond data =
     (stress_level data = Some ''high'' \<or> stress_level data = Some ''very_high'')"

definition behavioralRec :: Recommendation where
  "behavioralRec =
     \<lparr> specialty = ''Behavioral Health'',
       title = ''Stress & mood support'',
       reason = ''Elevated stress reported.'',
       urgency = Medium \<rparr>"

definition buildRecommendations :: "HealthSnapshot \<Rightarrow> Recommendation list" where
  "buildRecommendations data =
     (let r0 = [];
          r1 = (if cardiologyCond data then add r0 (cardiologyRec data) else r0);
          r2 = (if pulmonologyCond data then add r1 (pulmonologyRec data) else r1);
          r3 = (if endocrinologyCond data then add r2 endocrinologyRec else r2);
          r4 = (if behavioralCond data then add r3 behavioralRec else r3)
      in take 4 r4)"

subsection \<open>The tables of the specification\<close>

text \<open>
  The risk checks as the specification tabulates them: one row per check, with its
  condition evaluated on the snapshot, its score delta and its reason. A row marked
  ``else'' in the table holds only when the row above it does not.
\<close>

definition riskTable :: "HealthSnapshot \<Rightarrow> (bool \<times> int \<times> string) list" where
  "riskTable data =
     (let b = computeBMI (height data) (weight data);
          smoking = smoking_status data;
          alcohol = alcohol_consumption data
      in [(definedAnd b (\<lambda>x. jsGe x (Fin 30)), 2, ''BMI in obese range''),
          (\<not> definedAnd b (\<lambda>x. jsGe x (Fin 30)) \<and> definedAnd b (\<lambda>x. jsGe x (Fin 25)),
             1, ''BMI in overweight range''),
          (definedAnd (sleep_hours data) (\<lambda>h. jsLt h (Fin 6)), 1, ''Low sleep (<6h)''),
          (stress_level data \<in> {Some ''high'', Some ''very_high''}, 1, ''Elevated stress''),
          (smoking = Some ''regular'', 2, ''Smoking habit''),
          (smoking \<noteq> Some ''regular'' \<and> smoking \<in> {Some ''occasional'', Some ''former''},
             1, ''Smoking history''),
          (alcohol = Some ''heavy'', 2, ''Heavy alcohol intake''),
          (alcohol \<noteq> Some ''heavy'' \<and> alcohol = Some ''moderate'', 1, ''Moderate alcohol intake''),
          (definedAnd (heart_rate data) (\<lambda>r. jsGt r (Fin 100)), 1, ''Elevated heart rate''),
          (definedAnd (temperature_c data) (\<lambda>t. jsGe t (Fin (378 / 10))), 1,
             ''Fever-range temperature''),
          (definedAnd (spo2 data) (\<lambda>p. jsLt p (Fin 94)), 1, ''Low oxygen saturation''),
          (hasKeyword (family_history data) [''heart'', ''cardiac'', ''stroke''], 1,
             ''Cardiovascular family history''),
          (hasKeyword (conditions data) [''diab'', ''hypertension'', ''bp'', ''blood pressure''], 1,
             ''Chronic condition risk'')])"

text \<open>Evaluating a row: when its condition holds, its delta and reason are recorded.\<close>

definition applyRow :: "int \<times> string list \<Rightarrow> bool \<times> int \<times> string \<Rightarrow> int \<times> string list" where
  "applyRow st row = (if fst row then flag (fst (snd row)) (snd (snd row)) st else st)"

definition triggered :: "(bool \<times> 'a) list \<Rightarrow> 'a list" where
  "triggered rows = map snd (filter fst rows)"

text \<open>The optional insights in their fixed order, each title with its condition.\<close>

definition insightOrder :: "HealthSnapshot \<Rightarrow> (bool \<times> string) list" where
  "insightOrder data =
     [(bodyCompositionCond data, ''Body composition''),
      (sleepCond data, ''Sleep hygiene''),
      (heartRateCond data, ''Heart rate''),
      (feverCond data, ''Fever signal''),
      (oxygenCond data, ''Oxygen saturation''),
      (symptomsCond data, ''Current symptoms''),
      (stressCond data, ''Stress load''),
      (activityCond data, ''Activity level''),
      (tobaccoCond data, ''Tobacco risk''),
      (alcoholCond data, ''Alcohol use''),
      (familyCond data, ''Family history flags''),
      (conditionsCond data, ''Chronic conditions'')]"

definition allTitles :: "string list" where
  "allTitles =
     [''Overall status'', ''Body composition'', ''Sleep hygiene'', ''Heart rate'', ''Fever signal'',
      ''Oxygen saturation'', ''Current symptoms'', ''Stress load'', ''Activity level'',
      ''Tobacco risk'', ''Alcohol use'', ''Family history flags'', ''Chronic conditions'']"

text \<open>The insights themselves, row by row; \<open>pushIf\<close> is one conditional push.\<close>

definition pushIf :: "'a list \<Rightarrow> bool \<times> 'a \<Rightarrow> 'a list" where
  "pushIf xs row = (if fst row then push xs (snd row) else xs)"

definition insightTable :: "HealthSnapshot \<Rightarrow> (bool \<times> HealthInsight) list" where
  "insightTable data =
     [(bodyCompositionCond data,
         bodyCompositionInsight (case bmi (summarizeStatus data) of None \<Rightarrow> NaN | Some b \<Rightarrow> b)),
      (sleepCond data, sleepInsight data),
      (heartRateCond data, heartRateInsight data),
      (feverCond data, feverInsight data),
      (oxygenCond data, oxygenInsight data),
      (symptomsCond data, symptomsInsight data),
      (stressCond data, stressInsight data),
      (activityCond data, activityInsight data),
      (tobaccoCond data, tobaccoInsight data),
      (alcoholCond data, alcoholInsight data),
      (familyCond data, familyInsight),
      (conditionsCond data, conditionsInsight data)]"

text \<open>The four recommendation rules in evaluation order.\<close>

definition recommendationRules :: "HealthSnapshot \<Rightarrow> (bool \<times> Recommendation) list" where
  "recommendationRules data =
     [(cardiologyCond data, cardiologyRec data),
      (pulmonologyCond data, pulmonologyRec data),
      (endocrinologyCond data, endocrinologyRec),
      (behavioralCond data, behavioralRec)]"

text \<open>
  Case-insensitive substring search, in the words of the specification: some keyword
  occurs as a contiguous run of the lower-cased text.
\<close>

definition containsAny :: "string option \<Rightarrow> string list \<Rightarrow> bool" where
  "containsAny text keywords =
     (case text of
        None \<Rightarrow> False
      | Some t \<Rightarrow> list_ex (\<lambda>k. sublist k (toLowerCase t)) keywords)"

text \<open>The first present value of a list of optional texts, the empty text if none is.\<close>

definition firstPresent :: "string option list \<Rightarrow> string" where
  "firstPresent vs = (case List.map_filter id vs of [] \<Rightarrow> [] | s # _ \<Rightarrow> s)"

text \<open>The invariant of a normalised snapshot.\<close>

definition finiteOrAbsent :: "jsnum option \<Rightarrow> bool" where
  "finiteOrAbsent v = (case v of None \<Rightarrow> True | Some x \<Rightarrow> isFinite x)"

definition trimmedNonEmpty :: "string \<Rightarrow> bool" where
  "trimmedNonEmpty s = (s \<noteq> [] \<and> \<not> isWhiteSpace (hd s) \<and> \<not> isWhiteSpace (last s))"

definition textOrAbsent :: "string option \<Rightarrow> bool" where
  "textOrAbsent v = (case v of None \<Rightarrow> True | Some s \<Rightarrow> trimmedNonEmpty s)"

definition numericFields :: "HealthSnapshot \<Rightarrow> jsnum option list" where
  "numericFields d =
     [age d, height d, weight d, sleep_hours d, heart_rate d, temperature_c d, spo2 d]"

definition textFields :: "HealthSnapshot \<Rightarrow> string option list" where
  "textFields d =
     [sex d, blood_type d, allergies d, conditions d, medications d, medical_history d,
      past_reports d, prescriptions d, symptoms_current d, symptoms_past d, location d,
      smoking_status d, alcohol_consumption d, exercise_frequency d, diet_type d,
      stress_level d, family_history d, health_goals d, emergency_contact_name d,
      emergency_contact_phone d, blood_pressure d, diagnosis d, treatment_plan d,
      doctor_notes d]"

definition snapshotInvariant :: "HealthSnapshot \<Rightarrow> bool" where
  "snapshotInvariant d =
     (list_all finiteOrAbsent (numericFields d)
      \<and> list_all textOrAbsent (textFields d)
      \<and> (full_name d = [] \<or> trimmedNonEmpty (full_name d)))"


text \<open>
  The layout shared by everything \<open>String\<close> and \<open>toFixed\<close> print for a positive value:
  digits, then optionally a point and digits, then optionally an exponent part.
\<close>

definition decimalShape :: "string \<Rightarrow> bool" where
  "decimalShape s =
     (\<exists>ip fp ex.
        s = ip @ fp @ ex \<and> ip \<noteq> [] \<and> list_all isDigit ip
        \<and> (fp = [] \<or> (\<exists>ds. fp = CHR ''.'' # ds \<and> list_all isDigit ds))
        \<and> (ex = [] \<or> (\<exists>sg ds. ex = CHR ''e'' # sg # ds \<and> (sg = CHR ''+'' \<or> sg = CHR ''-'')
                              \<and> ds \<noteq> [] \<and> list_all isDigit ds)))"

subsection \<open>Concrete inputs\<close>

text \<open>The two records of the module's tests.\<close>

definition riskExample :: rawRecord where
  "riskExample =
     map_of
       [(''height'', JNum (Fin 170)),
        (''weight'', JNum (Fin 95)),
        (''sleep_hours'', JNum (Fin 5)),
        (''stress_level'', JStr ''high''),
        (''smoking_status'', JStr ''regular''),
        (''alcohol_consumption'', JStr ''moderate'')]"

definition cardioExample :: rawRecord where
  "cardioExample =
     map_of
       [(''conditions'', JStr ''hypertension''),
        (''family_history'', JStr ''heart disease''),
        (''smoking_status'', JStr ''regular''),
        (''sleep_hours'', JNum (Fin 6)),
        (''stress_level'', JStr ''high''),
        (''symptoms_current'', JStr ''chest pain''),
        (''location'', JStr ''Mumbai'')]"

section \<open>Risk scoring: the checks are the rows of the table\<close>

lemma if_applyRow: "(if c then flag dl r st else st) = applyRow st (c, dl, r)"
  by (simp add: applyRow_def)

lemma if2_applyRow:
  "(if c1 then flag d1 r1 st else if c2 then flag d2 r2 st else st)
   = applyRow (applyRow st (c1, d1, r1)) (\<not> c1 \<and> c2, d2, r2)"
  by (simp add: applyRow_def)

lemma if_applyRow_applyRow:
  "(if c1 then flag d1 r1 st else applyRow st (c2, d2, r2))
   = applyRow (applyRow st (c1, d1, r1)) (\<not> c1 \<and> c2, d2, r2)"
  by (simp add: applyRow_def)

lemma jsGe_numTruthy: "jsGe x (Fin c) \<Longrightarrow> 0 < c \<Longrightarrow> numTruthy x"
  by (cases x) (auto simp: jsGe_def jsLe_def)

lemma bmi_applyRow:
  "(case v of
      None \<Rightarrow> st
    | Some x \<Rightarrow>
        if numTruthy x then
          if jsGe x (Fin 30) then flag 2 r1 st
          else if jsGe x (Fin 25) then flag 1 r2 st
          else st
        else st)
   = applyRow (applyRow st (definedAnd v (\<lambda>x. jsGe x (Fin 30)), 2, r1))
       (\<not> definedAnd v (\<lambda>x. jsGe x (Fin 30)) \<and> definedAnd v (\<lambda>x. jsGe x (Fin 25)), 1, r2)"
  using jsGe_numTruthy[of _ 30] jsGe_numTruthy[of _ 25]
  by (auto simp: applyRow_def definedAnd_def split: option.splits)

lemma riskChecks_rows: "riskChecks d = foldl applyRow (0, []) (riskTable d)"
  unfolding riskChecks_def riskTable_def
  apply (simp only: bmi_applyRow)
  apply (simp only: if_applyRow if2_applyRow if_applyRow_applyRow)
  apply (simp only: Let_def foldl_Cons foldl_Nil)
  apply simp
  done

lemma foldl_applyRow:
  "foldl applyRow st rows
   = (fst st + sum_list (map fst (triggered rows)), snd st @ map snd (triggered rows))"
proof (induction rows arbitrary: st)
  case Nil
  show ?case by (simp add: triggered_def)
next
  case (Cons row rows)
  show ?case
    by (simp add: Cons.IH) (simp add: applyRow_def flag_def triggered_def)
qed

lemma riskChecks_triggered:
  "riskChecks d
   = (sum_list (map fst (triggered (riskTable d))), map snd (triggered (riskTable d)))"
  by (simp add: riskChecks_rows foldl_applyRow)

lemma riskTable_deltas: "map (fst \<circ> snd) (riskTable d) = [2, 1, 1, 1, 2, 1, 2, 1, 1, 1, 1, 1, 1]"
  by (simp add: riskTable_def Let_def)

lemma triggered_bounds:
  assumes "\<forall>row \<in> set rows. fst (snd row) = (1::int) \<or> fst (snd row) = 2"
  shows "int (length (triggered rows)) \<le> sum_list (map fst (triggered rows))
         \<and> sum_list (map fst (triggered rows)) \<le> 2 * int (length (triggered rows))"
  using assms by (induction rows) (auto simp: triggered_def)

lemma riskTable_one_or_two:
  "\<forall>row \<in> set (riskTable d). fst (snd row) = 1 \<or> fst (snd row) = 2"
proof -
  have "\<forall>dl \<in> set (map (fst \<circ> snd) (riskTable d)). dl = 1 \<or> dl = 2"
    unfolding riskTable_deltas by simp
  then show ?thesis by simp
qed

lemma riskChecks_bounds:
  "int (length (snd (riskChecks d))) \<le> fst (riskChecks d)
   \<and> fst (riskChecks d) \<le> 2 * int (length (snd (riskChecks d)))"
  using triggered_bounds[OF riskTable_one_or_two, of d]
  by (simp add: riskChecks_triggered)

lemma summarizeStatus_fields:
  "level (summarizeStatus d) = levelOf (fst (riskChecks d))"
  "reasons (summarizeStatus d) = snd (riskChecks d)"
  "bmi (summarizeStatus d) = computeBMI (height d) (weight d)"
  "summary (summarizeStatus d) = summaryOf (levelOf (fst (riskChecks d)))"
  by (simp_all add: summarizeStatus_def Let_def)

lemma riskExample_risk:
  "riskChecks (normalizeOnboardingData (Some riskExample))
   = (7, [''BMI in obese range'', ''Low sleep (<6h)'', ''Elevated stress'', ''Smoking habit'',
          ''Moderate alcohol intake''])"
  by code_simp

lemma emptySnapshot_risk: "riskChecks emptySnapshot = (0, [])"
  by code_simp

text \<open>
  C1. \<open>summarizeStatus\<close> evaluates the checks in the order of the table: its score is the
  sum of the deltas of the rows whose condition holds and its reasons are the reasons
  of those rows, in table order, one per row; the level is \<open>action\<close> from score 4,
  \<open>watch\<close> from score 2, and \<open>good\<close> below. For the snapshot normalised from
  \<open>{height: 170, weight: 95, sleep_hours: 5, stress_level: "high", smoking_status:
  "regular", alcohol_consumption: "moderate"}\<close> the level is \<open>action\<close> and the reasons
  contain \<open>BMI in obese range\<close> and \<open>Low sleep (<6h)\<close>.
\<close>

theorem summarizeStatus_table_order:
  "fst (riskChecks d) = sum_list (map fst (triggered (riskTable d)))
   \<and> reasons (summarizeStatus d) = map snd (triggered (riskTable d))
   \<and> level (summarizeStatus d)
       = (if 4 \<le> fst (riskChecks d) then Action
          else if 2 \<le> fst (riskChecks d) then Watch
          else Good)
   \<and> level (summarizeStatus (normalizeOnboardingData (Some riskExample))) = Action
   \<and> ''BMI in obese range''
       \<in> set (reasons (summarizeStatus (normalizeOnboardingData (Some riskExample))))
   \<and> ''Low sleep (<6h)''
       \<in> set (reasons (summarizeStatus (normalizeOnboardingData (Some riskExample))))"
  by (simp add: summarizeStatus_fields riskChecks_triggered[of d] riskExample_risk levelOf_def)

text \<open>
  C9. The score lies between the number of reasons and twice that number; so there is
  no reason exactly when the score is 0, level \<open>action\<close> carries at least two reasons
  and level \<open>good\<close> at most one.
\<close>

theorem score_between_reasons:
  "int (length (reasons (summarizeStatus d))) \<le> fst (riskChecks d)
   \<and> fst (riskChecks d) \<le> 2 * int (length (reasons (summarizeStatus d)))
   \<and> (reasons (summarizeStatus d) = [] \<longleftrightarrow> fst (riskChecks d) = 0)
   \<and> (level (summarizeStatus d) = Action \<longrightarrow> 2 \<le> length (reasons (summarizeStatus d)))
   \<and> (level (summarizeStatus d) = Good \<longrightarrow> length (reasons (summarizeStatus d)) \<le> 1)"
  using riskChecks_bounds[of d]
  by (auto simp: summarizeStatus_fields levelOf_def split: if_splits)

theorem score_between_reasons_witness:
  "level (summarizeStatus (normalizeOnboardingData (Some riskExample))) = Action
   \<and> 2 \<le> length (reasons (summarizeStatus (normalizeOnboardingData (Some riskExample))))
   \<and> level (summarizeStatus emptySnapshot) = Good
   \<and> length (reasons (summarizeStatus emptySnapshot)) \<le> 1"
  using score_between_reasons[of "normalizeOnboardingData (Some riskExample)"]
    score_between_reasons[of emptySnapshot]
  by (simp add: summarizeStatus_fields riskExample_risk emptySnapshot_risk levelOf_def)

section \<open>Insights: one unconditional insight, then the triggered ones in order\<close>

lemma if_pushIf: "(if c then push xs x else xs) = pushIf xs (c, x)"
  by (simp add: pushIf_def)

lemma bmi_pushIf:
  "(case v of None \<Rightarrow> xs | Some b \<Rightarrow> if numTruthy b then push xs (f b) else xs)
   = pushIf xs (definedAnd v numTruthy, f (case v of None \<Rightarrow> NaN | Some b \<Rightarrow> b))"
  by (simp add: pushIf_def definedAnd_def split: option.splits)

lemma foldl_pushIf: "foldl pushIf xs rows = xs @ triggered rows"
  by (induction rows arbitrary: xs) (simp_all add: pushIf_def push_def triggered_def)

lemma buildInsights_rows:
  "buildInsights d = foldl pushIf [overallInsight (summarizeStatus d)] (insightTable d)"
  unfolding buildInsights_def insightTable_def
  apply (simp only: bmi_pushIf)
  apply (simp only: if_pushIf)
  apply (simp only: Let_def foldl_Cons foldl_Nil)
  apply (simp add: push_def bodyCompositionCond_def)
  done

lemma buildInsights_triggered:
  "buildInsights d = overallInsight (summarizeStatus d) # triggered (insightTable d)"
  by (simp add: buildInsights_rows foldl_pushIf)

lemma triggered_map:
  "map f (triggered rows) = triggered (map (\<lambda>row. (fst row, f (snd row))) rows)"
  by (induction rows) (simp_all add: triggered_def)

lemma insightTable_titles:
  "map (\<lambda>row. (fst row, HealthInsight.title (snd row))) (insightTable d) = insightOrder d"
  by (simp add: insightTable_def insightOrder_def bodyCompositionInsight_def Let_def
      sleepInsight_def heartRateInsight_def feverInsight_def oxygenInsight_def
      symptomsInsight_def stressInsight_def activityInsight_def tobaccoInsight_def
      alcoholInsight_def familyInsight_def conditionsInsight_def)

lemma buildInsights_titles:
  "map HealthInsight.title (buildInsights d) = ''Overall status'' # triggered (insightOrder d)"
  by (simp add: buildInsights_triggered triggered_map insightTable_titles)
    (simp add: overallInsight_def)

lemma insightOrder_titles: "map snd (insightOrder d) = tl allTitles"
  by (simp add: insightOrder_def allTitles_def)

lemma triggered_subseq: "subseq (triggered rows) (map snd rows)"
  unfolding triggered_def by (rule subseq_map) simp

lemma distinct_allTitles: "distinct allTitles"
  by (simp add: allTitles_def)

text \<open>
  C4. The list of insights is never empty; its first element is the \<open>Overall status\<close>
  insight, whose severity is high, medium or low exactly when the level is action,
  watch or good; the titles after it are those of the optional insights whose condition
  holds, in the fixed order from \<open>Body composition\<close> to \<open>Chronic conditions\<close>.
\<close>

theorem buildInsights_order:
  "buildInsights d \<noteq> []
   \<and> hd (buildInsights d) = overallInsight (summarizeStatus d)
   \<and> HealthInsight.title (hd (buildInsights d)) = ''Overall status''
   \<and> (severity (hd (buildInsights d)) = High \<longleftrightarrow> level (summarizeStatus d) = Action)
   \<and> (severity (hd (buildInsights d)) = Medium \<longleftrightarrow> level (summarizeStatus d) = Watch)
   \<and> (severity (hd (buildInsights d)) = Low \<longleftrightarrow> level (summarizeStatus d) = Good)
   \<and> map HealthInsight.title (tl (buildInsights d)) = triggered (insightOrder d)
   \<and> map snd (insightOrder d)
       = [''Body composition'', ''Sleep hygiene'', ''Heart rate'', ''Fever signal'',
          ''Oxygen saturation'', ''Current symptoms'', ''Stress load'', ''Activity level'',
          ''Tobacco risk'', ''Alcohol use'', ''Family history flags'', ''Chronic conditions'']
   \<and> subseq (map HealthInsight.title (tl (buildInsights d))) (map snd (insightOrder d))"
proof -
  have tl_titles: "map HealthInsight.title (tl (buildInsights d)) = triggered (insightOrder d)"
    using buildInsights_titles[of d] by (simp add: map_tl)
  have first: "hd (buildInsights d) = overallInsight (summarizeStatus d)"
    by (simp add: buildInsights_triggered)
  have sev: "severity (overallInsight (summarizeStatus d))
             = (case level (summarizeStatus d) of Action \<Rightarrow> High | Watch \<Rightarrow> Medium | Good \<Rightarrow> Low)"
    by (cases "level (summarizeStatus d)") (simp_all add: overallInsight_def)
  have order: "map snd (insightOrder d)
       = [''Body composition'', ''Sleep hygiene'', ''Heart rate'', ''Fever signal'',
          ''Oxygen saturation'', ''Current symptoms'', ''Stress load'', ''Activity level'',
          ''Tobacco risk'', ''Alcohol use'', ''Family history flags'', ''Chronic conditions'']"
    by (simp add: insightOrder_def)
  have sub: "subseq (map HealthInsight.title (tl (buildInsights d))) (map snd (insightOrder d))"
    unfolding tl_titles by (rule triggered_subseq)
  have ne: "buildInsights d \<noteq> []"
    by (simp add: buildInsights_triggered)
  have t: "HealthInsight.title (overallInsight (summarizeStatus d)) = ''Overall status''"
    by (simp add: overallInsight_def)
  show ?thesis
    using ne first t sev tl_titles order sub
    by (cases "level (summarizeStatus d)") simp_all
qed

text \<open>
  C10. The titles of the insights of one list are pairwise distinct, and each is one of
  the thirteen titles the module knows.
\<close>

theorem buildInsights_titles_distinct:
  "distinct (map HealthInsight.title (buildInsights d))
   \<and> set (map HealthInsight.title (buildInsights d)) \<subseteq> set allTitles
   \<and> length allTitles = 13"
proof -
  have order: "map snd (insightOrder d) = tl allTitles"
    by (rule insightOrder_titles)
  have "distinct (map snd (insightOrder d))"
    unfolding order using distinct_allTitles by (rule distinct_tl)
  then have d1: "distinct (triggered (insightOrder d))"
    unfolding triggered_def by (rule distinct_map_filter)
  have s1: "set (triggered (insightOrder d)) \<subseteq> set (tl allTitles)"
    unfolding order[symmetric] by (auto simp: triggered_def)
  have h: "''Overall status'' \<notin> set (tl allTitles)"
    by (simp add: allTitles_def)
  have a: "allTitles = ''Overall status'' # tl allTitles"
    by (simp add: allTitles_def)
  have "distinct (''Overall status'' # triggered (insightOrder d))"
    using d1 s1 h by auto
  moreover have "set (''Overall status'' # triggered (insightOrder d)) \<subseteq> set allTitles"
    using s1 by (subst a) auto
  moreover have "length allTitles = 13"
    by (simp add: allTitles_def)
  ultimately show ?thesis
    by (simp only: buildInsights_titles)
qed

section \<open>Recommendations: at most four, one per specialty, in rule order\<close>

lemma includes_str_sublist: "includes_str s k \<longleftrightarrow> sublist k s"
  by (induction s) (simp_all add: sublist_Cons_right)

lemma hasKeyword_containsAny:
  assumes "[] \<notin> set keywords"
  shows "hasKeyword v keywords = containsAny v keywords"
proof (cases v)
  case None
  then show ?thesis by (simp add: hasKeyword_def containsAny_def)
next
  case (Some t)
  show ?thesis
  proof (cases "t = []")
    case True
    with Some assms show ?thesis
      by (auto simp: hasKeyword_def containsAny_def toLowerCase_def list_ex_iff)
  next
    case False
    with Some show ?thesis
      by (simp add: hasKeyword_def containsAny_def Let_def includes_str_sublist list_ex_iff)
  qed
qed



lemma add_fresh:
  "specialty rec \<notin> specialty ` set recs \<Longrightarrow> add recs rec = recs @ [rec]"
  by (auto simp: add_def push_def find_None_iff image_iff)


lemma rule_specialties:
  "map (specialty \<circ> snd) (recommendationRules d)
   = [''Cardiology'', ''Pulmonology'', ''Endocrinology'', ''Behavioral Health'']"
  by (simp add: recommendationRules_def cardiologyRec_def pulmonologyRec_def
      endocrinologyRec_def behavioralRec_def)

lemma buildRecommendations_fold:
  "buildRecommendations d = take 4 (foldl add [] (triggered (recommendationRules d)))"
  by (simp add: buildRecommendations_def recommendationRules_def triggered_def Let_def)

lemma foldl_add_distinct:
  assumes "distinct (map specialty cs)"
    and "set (map specialty acc) \<inter> set (map specialty cs) = {}"
  shows "foldl add acc cs = acc @ cs"
  using assms
proof (induction cs arbitrary: acc)
  case Nil
  show ?case by simp
next
  case (Cons c cs)
  have "add acc c = acc @ [c]"
    using Cons.prems by (intro add_fresh) auto
  moreover have "foldl add (acc @ [c]) cs = (acc @ [c]) @ cs"
    using Cons.prems by (intro Cons.IH) auto
  ultimately show ?case by simp
qed

lemma triggered_rules_distinct: "distinct (map specialty (triggered (recommendationRules d)))"
proof -
  have "distinct (map (specialty \<circ> snd) (recommendationRules d))"
    unfolding rule_specialties by simp
  then have "distinct (map specialty (map snd (filter fst (recommendationRules d))))"
    unfolding map_map by (rule distinct_map_filter)
  then show ?thesis by (simp add: triggered_def)
qed

lemma buildRecommendations_triggered:
  "buildRecommendations d = triggered (recommendationRules d)"
proof -
  have "length (triggered (recommendationRules d)) \<le> 4"
    by (simp add: triggered_def recommendationRules_def)
  moreover have "foldl add [] (triggered (recommendationRules d)) = triggered (recommendationRules d)"
    using foldl_add_distinct[where acc = "[]" and cs = "triggered (recommendationRules d)"]
      triggered_rules_distinct[of d]
    by simp
  ultimately show ?thesis
    by (simp add: buildRecommendations_fold)
qed

lemma triggered_iff: "x \<in> set (triggered rows) \<longleftrightarrow> (True, x) \<in> set rows"
  by (force simp: triggered_def)

lemma triggered_key:
  assumes "distinct (map (key \<circ> snd) rows)"
    and "(c, x) \<in> set rows"
    and "r \<in> set (triggered rows)"
    and "key r = key x"
  shows "r = x \<and> c"
proof -
  have inj: "inj_on (key \<circ> snd) (set rows)"
    using assms(1) by (simp add: distinct_map)
  have m: "(True, r) \<in> set rows"
    using assms(3) by (simp add: triggered_iff)
  have e: "(key \<circ> snd) (True, r) = (key \<circ> snd) (c, x)"
    using assms(4) by simp
  have "(True, r) = (c, x)"
    by (rule inj_onD[OF inj e m assms(2)])
  then show ?thesis by simp
qed

lemma rules_distinct: "distinct (map (specialty \<circ> snd) (recommendationRules d))"
  unfolding rule_specialties by simp

lemma cardiology_row: "(cardiologyCond d, cardiologyRec d) \<in> set (recommendationRules d)"
  by (simp add: recommendationRules_def)

lemma cardiology_specialty: "specialty (cardiologyRec d) = ''Cardiology''"
  by (simp add: cardiologyRec_def)

lemma cardiology_entry:
  assumes "r \<in> set (buildRecommendations d)" and "specialty r = ''Cardiology''"
  shows "r = cardiologyRec d \<and> cardiologyCond d"
  using triggered_key[OF rules_distinct cardiology_row, of r] assms
  by (simp add: buildRecommendations_triggered cardiology_specialty)

lemma cardiology_membership:
  "(\<exists>r \<in> set (buildRecommendations d). specialty r = ''Cardiology'') \<longleftrightarrow> cardiologyCond d"
proof
  assume "\<exists>r \<in> set (buildRecommendations d). specialty r = ''Cardiology''"
  then show "cardiologyCond d"
    using cardiology_entry by blast
next
  assume c: "cardiologyCond d"
  have "(True, cardiologyRec d) \<in> set (recommendationRules d)"
    using cardiology_row[of d] c by simp
  then have "cardiologyRec d \<in> set (buildRecommendations d)"
    by (simp add: buildRecommendations_triggered triggered_iff)
  then show "\<exists>r \<in> set (buildRecommendations d). specialty r = ''Cardiology''"
    using cardiology_specialty by blast
qed

lemma recommendation_specialties:
  assumes "r \<in> set (buildRecommendations d)"
  shows "specialty r \<in> set [''Cardiology'', ''Pulmonology'', ''Endocrinology'', ''Behavioral Health'']"
proof -
  have "(True, r) \<in> set (recommendationRules d)"
    using assms by (simp add: buildRecommendations_triggered triggered_iff)
  then have "(specialty \<circ> snd) (True, r) \<in> (specialty \<circ> snd) ` set (recommendationRules d)"
    by (rule imageI)
  then have "specialty r \<in> set (map (specialty \<circ> snd) (recommendationRules d))"
    by simp
  then show ?thesis
    unfolding rule_specialties .
qed

lemma not_primary_care:
  "''Primary Care'' \<notin> set [''Cardiology'', ''Pulmonology'', ''Endocrinology'', ''Behavioral Health'']"
  by simp

lemma symptomText_firstPresent:
  "symptomText d = firstPresent [symptoms_current d, conditions d, symptoms_past d]"
  by (simp add: symptomText_def firstPresent_def List.map_filter_simps split: option.splits)

lemma cardioExample_specialties:
  "map specialty (buildRecommendations (normalizeOnboardingData (Some cardioExample)))
   = [''Cardiology'', ''Pulmonology'', ''Behavioral Health'']"
  by code_simp

lemma cardioExample_urgencies:
  "map urgency (buildRecommendations (normalizeOnboardingData (Some cardioExample)))
   = [High, Medium, Medium]"
  by code_simp

lemma cardioExample_cond: "cardiologyCond (normalizeOnboardingData (Some cardioExample))"
  by code_simp



text \<open>
  C6. The text searched for symptoms is the first present one of \<open>symptoms_current\<close>,
  \<open>conditions\<close> and \<open>symptoms_past\<close>, the empty text if none is. A \<open>Cardiology\<close>
  recommendation is returned exactly when that text contains, ignoring case, one of
  \<open>chest pain\<close>, \<open>shortness of breath\<close>, \<open>palpitations\<close>, or the family history contains
  \<open>heart\<close> or \<open>cardiac\<close>, or the conditions contain \<open>hypertension\<close>; its urgency is high
  exactly when the text contains \<open>chest pain\<close> or \<open>shortness of breath\<close>, medium otherwise.
  No recommendation has the specialty \<open>Primary Care\<close>.
\<close>

theorem cardiology_rule:
  "symptomText d = firstPresent [symptoms_current d, conditions d, symptoms_past d]
   \<and> ((\<exists>r \<in> set (buildRecommendations d). specialty r = ''Cardiology'')
        \<longleftrightarrow> containsAny (Some (symptomText d))
               [''chest pain'', ''shortness of breath'', ''palpitations'']
            \<or> containsAny (family_history d) [''heart'', ''cardiac'']
            \<or> containsAny (conditions d) [''hypertension''])
   \<and> (\<forall>r \<in> set (buildRecommendations d). specialty r = ''Cardiology'' \<longrightarrow>
         urgency r
         = (if containsAny (Some (symptomText d)) [''chest pain'', ''shortness of breath'']
            then High else Medium))
   \<and> (\<forall>r \<in> set (buildRecommendations d). specialty r \<noteq> ''Primary Care'')"
proof -
  have k1: "hasKeyword (Some (symptomText d)) [''chest pain'', ''shortness of breath'', ''palpitations'']
            = containsAny (Some (symptomText d)) [''chest pain'', ''shortness of breath'', ''palpitations'']"
    by (rule hasKeyword_containsAny) simp
  have k2: "hasKeyword (family_history d) [''heart'', ''cardiac'']
            = containsAny (family_history d) [''heart'', ''cardiac'']"
    by (rule hasKeyword_containsAny) simp
  have k3: "hasKeyword (conditions d) [''hypertension''] = containsAny (conditions d) [''hypertension'']"
    by (rule hasKeyword_containsAny) simp
  have k4: "hasKeyword (Some (symptomText d)) [''chest pain'', ''shortness of breath'']
            = containsAny (Some (symptomText d)) [''chest pain'', ''shortness of breath'']"
    by (rule hasKeyword_containsAny) simp
  have member: "(\<exists>r \<in> set (buildRecommendations d). specialty r = ''Cardiology'')
        \<longleftrightarrow> containsAny (Some (symptomText d))
               [''chest pain'', ''shortness of breath'', ''palpitations'']
            \<or> containsAny (family_history d) [''heart'', ''cardiac'']
            \<or> containsAny (conditions d) [''hypertension'']"
    unfolding cardiology_membership cardiologyCond_def k1 k2 k3 by (rule refl)
  have urg: "\<forall>r \<in> set (buildRecommendations d). specialty r = ''Cardiology'' \<longrightarrow>
         urgency r
         = (if containsAny (Some (symptomText d)) [''chest pain'', ''shortness of breath'']
            then High else Medium)"
  proof (intro ballI impI)
    fix r
    assume "r \<in> set (buildRecommendations d)" and "specialty r = ''Cardiology''"
    then have "r = cardiologyRec d" using cardiology_entry by blast
    then show "urgency r
         = (if containsAny (Some (symptomText d)) [''chest pain'', ''shortness of breath'']
            then High else Medium)"
      by (simp add: cardiologyRec_def k4)
  qed
  have none: "\<forall>r \<in> set (buildRecommendations d). specialty r \<noteq> ''Primary Care''"
    using recommendation_specialties[of _ d] not_primary_care by metis
  show ?thesis
    using symptomText_firstPresent[of d] member urg none by blast
qed

theorem cardiology_rule_witness:
  "hd (buildRecommendations (normalizeOnboardingData (Some cardioExample)))
     \<in> set (buildRecommendations (normalizeOnboardingData (Some cardioExample)))
   \<and> specialty (hd (buildRecommendations (normalizeOnboardingData (Some cardioExample))))
       = ''Cardiology''
   \<and> urgency (hd (buildRecommendations (normalizeOnboardingData (Some cardioExample)))) = High
   \<and> containsAny (Some (symptomText (normalizeOnboardingData (Some cardioExample))))
       [''chest pain'', ''shortness of breath'']
   \<and> specialty (hd (buildRecommendations (normalizeOnboardingData (Some cardioExample))))
       \<noteq> ''Primary Care''"
proof -
  let ?d = "normalizeOnboardingData (Some cardioExample)"
  have ne: "buildRecommendations ?d \<noteq> []"
    using cardioExample_specialties by auto
  then have mem: "hd (buildRecommendations ?d) \<in> set (buildRecommendations ?d)"
    by simp
  have sp: "specialty (hd (buildRecommendations ?d)) = ''Cardiology''"
    using cardioExample_specialties ne by (simp add: hd_map[symmetric])
  have ur: "urgency (hd (buildRecommendations ?d)) = High"
    using cardioExample_urgencies ne by (simp add: hd_map[symmetric])
  have "urgency (hd (buildRecommendations ?d))
        = (if containsAny (Some (symptomText ?d)) [''chest pain'', ''shortness of breath'']
           then High else Medium)"
    using cardiology_rule[of ?d] mem sp by blast
  then have c: "containsAny (Some (symptomText ?d)) [''chest pain'', ''shortness of breath'']"
    using ur by (simp split: if_splits)
  have "specialty (hd (buildRecommendations ?d)) \<noteq> ''Primary Care''"
    unfolding sp by simp
  then show ?thesis
    using mem sp ur c by blast
qed

section \<open>Text and digits\<close>

lemma trim_trimmed:
  assumes "trim s \<noteq> []"
  shows "trimmedNonEmpty (trim s)"
proof -
  let ?t = "dropWhile isWhiteSpace s"
  let ?u = "dropWhile isWhiteSpace (rev ?t)"
  have u: "?u \<noteq> []"
    using assms by (simp add: trim_def)
  have t: "?t \<noteq> []"
  proof
    assume a: "?t = []"
    have "?u = []" unfolding a by simp
    with u show False by simp
  qed
  have "\<not> isWhiteSpace (hd ?u)"
    using u by (rule hd_dropWhile)
  then have last_ok: "\<not> isWhiteSpace (last (rev ?u))"
    using u by (simp add: last_rev)
  have "rev ?t = takeWhile isWhiteSpace (rev ?t) @ ?u"
    by simp
  then have "last (rev ?t) = last ?u"
    using u by (metis last_appendR)
  then have "hd (rev ?u) = hd ?t"
    using u t by (simp add: hd_rev last_rev)
  moreover have "\<not> isWhiteSpace (hd ?t)"
    using t by (rule hd_dropWhile)
  ultimately have "\<not> isWhiteSpace (hd (rev ?u))"
    by simp
  then show ?thesis
    using u last_ok by (simp add: trimmedNonEmpty_def trim_def)
qed

lemma trim_of_trimmed:
  assumes "trimmedNonEmpty s"
  shows "trim s = s"
proof -
  from assms obtain c cs where s: "s = c # cs" and c: "\<not> isWhiteSpace c"
    by (cases s) (auto simp: trimmedNonEmpty_def)
  have 1: "dropWhile isWhiteSpace s = s"
    using s c by simp
  have "rev s \<noteq> []" and "\<not> isWhiteSpace (hd (rev s))"
    using assms by (simp_all add: trimmedNonEmpty_def hd_rev)
  then have 2: "dropWhile isWhiteSpace (rev s) = rev s"
    by (cases "rev s") simp_all
  show ?thesis
    by (simp add: trim_def 1 2)
qed

lemma trim_idem: "trim (trim s) = trim s"
proof (cases "trim s = []")
  case True
  have "trim [] = []" by (simp add: trim_def)
  with True show ?thesis by simp
next
  case False
  then show ?thesis by (intro trim_of_trimmed trim_trimmed)
qed

lemma no_space_trimmed:
  assumes "s \<noteq> []" and "\<forall>c \<in> set s. \<not> isWhiteSpace c"
  shows "trimmedNonEmpty s"
  using assms by (simp add: trimmedNonEmpty_def)

lemma isDigit_iff: "isDigit c \<longleftrightarrow> c \<in> set ''0123456789''"
  by (auto simp: isDigitIn_def digitValue_def toLowerChar_def split: option.splits if_splits)

lemma digitChar_digit: "d < 10 \<Longrightarrow> isDigit (digitChar d)"
proof -
  assume "d < 10"
  then have "nat d \<in> {0, 1, 2, 3, 4, 5, 6, 7, 8, 9}"
    by auto
  then show ?thesis
    unfolding isDigit_iff digitChar_def by auto
qed

lemma digitsOf_nonempty: "digitsOf n \<noteq> []"
  by (subst digitsOf.simps) simp

lemma digitsOf_digits: "list_all isDigit (digitsOf n)"
proof (induction n rule: digitsOf.induct)
  case (1 n)
  show ?case
  proof (cases "n < 10")
    case True
    then show ?thesis
      by (subst digitsOf.simps) (simp add: digitChar_digit)
  next
    case False
    then have "list_all isDigit (digitsOf (n div 10))"
      by (rule "1.IH")
    moreover have "isDigit (digitChar (n mod 10))"
      by (rule digitChar_digit) simp
    ultimately show ?thesis
      using False by (subst digitsOf.simps) simp
  qed
qed

lemma digitsOf_upper: "0 \<le> n \<Longrightarrow> n < 10 ^ length (digitsOf n)"
proof (induction n rule: digitsOf.induct)
  case (1 n)
  show ?case
  proof (cases "n < 10")
    case True
    then show ?thesis
      by (subst digitsOf.simps) simp
  next
    case False
    then have "n div 10 < 10 ^ length (digitsOf (n div 10))"
      using "1.prems" by (intro "1.IH") auto
    then have "n < 10 * 10 ^ length (digitsOf (n div 10))"
      by linarith
    then show ?thesis
      using False by (subst digitsOf.simps) simp
  qed
qed

lemma digitsOf_lower: "1 \<le> n \<Longrightarrow> 10 ^ (length (digitsOf n) - 1) \<le> n"
proof (induction n rule: digitsOf.induct)
  case (1 n)
  show ?case
  proof (cases "n < 10")
    case True
    then show ?thesis
      using "1.prems" by (subst digitsOf.simps) simp
  next
    case False
    then have "10 ^ (length (digitsOf (n div 10)) - 1) \<le> n div 10"
      by (intro "1.IH") auto
    then have "10 * 10 ^ (length (digitsOf (n div 10)) - 1) \<le> n"
      by linarith
    moreover have "length (digitsOf (n div 10)) \<noteq> 0"
      using digitsOf_nonempty by simp
    ultimately have "10 ^ length (digitsOf (n div 10)) \<le> n"
      by (cases "length (digitsOf (n div 10))") simp_all
    then show ?thesis
      using False by (subst digitsOf.simps) simp
  qed
qed

lemma digitsOf_hd: "1 \<le> n \<Longrightarrow> hd (digitsOf n) \<noteq> CHR ''0''"
proof (induction n rule: digitsOf.induct)
  case (1 n)
  show ?case
  proof (cases "n < 10")
    case True
    with "1.prems" have "nat n \<in> {1, 2, 3, 4, 5, 6, 7, 8, 9}"
      by auto
    then have "digitChar n \<noteq> CHR ''0''"
      unfolding digitChar_def by auto
    then show ?thesis
      using True by (subst digitsOf.simps) simp
  next
    case False
    then have "hd (digitsOf (n div 10)) \<noteq> CHR ''0''"
      by (intro "1.IH") auto
    then show ?thesis
      using False digitsOf_nonempty by (subst digitsOf.simps) simp
  qed
qed

lemma stripTrailingZeros_subset: "set (stripTrailingZeros ds) \<subseteq> set ds"
  by (auto simp: stripTrailingZeros_def dest: set_dropWhileD)

lemma stripTrailingZeros_nonempty:
  assumes "ds \<noteq> []" and "hd ds \<noteq> CHR ''0''"
  shows "stripTrailingZeros ds \<noteq> []"
proof -
  have "hd ds \<in> set (rev ds)"
    using assms(1) by simp
  then have "\<exists>c \<in> set (rev ds). c \<noteq> CHR ''0''"
    using assms(2) by blast
  then have "dropWhile (\<lambda>c. c = CHR ''0'') (rev ds) \<noteq> []"
    by (simp add: dropWhile_eq_Nil_conv)
  then show ?thesis
    by (simp add: stripTrailingZeros_def)
qed

lemma stripTrailingZeros_digits:
  "list_all isDigit ds \<Longrightarrow> list_all isDigit (stripTrailingZeros ds)"
  using stripTrailingZeros_subset[of ds] by (auto simp: list_all_iff)

section \<open>Printed numbers parse back to finite numbers\<close>

lemma decimalShapeI:
  assumes "ip \<noteq> []" and "list_all isDigit ip"
    and "fp = [] \<or> (\<exists>ds. fp = CHR ''.'' # ds \<and> list_all isDigit ds)"
    and "ex = [] \<or> (\<exists>sg ds. ex = CHR ''e'' # sg # ds \<and> (sg = CHR ''+'' \<or> sg = CHR ''-'')
                        \<and> ds \<noteq> [] \<and> list_all isDigit ds)"
  shows "decimalShape (ip @ fp @ ex)"
  unfolding decimalShape_def using assms by blast

lemma digit_not_space: "isDigit c \<Longrightarrow> \<not> isWhiteSpace c"
  by (auto simp: isDigit_iff isWhiteSpace_def)

lemma digit_facts:
  "\<not> isDigit (CHR ''.'')" "\<not> isDigit (CHR ''e'')" "\<not> isDigit (CHR ''I'')"
  "\<not> isDigit (CHR ''+'')" "\<not> isDigit (CHR ''-'')" "isDigit (CHR ''0'')"
  by (simp_all add: isDigit_iff)

lemma space_facts:
  "\<not> isWhiteSpace (CHR ''.'')" "\<not> isWhiteSpace (CHR ''e'')" "\<not> isWhiteSpace (CHR ''+'')"
  "\<not> isWhiteSpace (CHR ''-'')"
  by (simp_all add: isWhiteSpace_def)

lemma decimalShape_no_space:
  assumes "decimalShape s"
  shows "s \<noteq> [] \<and> isDigit (hd s) \<and> (\<forall>c \<in> set s. \<not> isWhiteSpace c)"
proof -
  from assms obtain ip fp ex where s: "s = ip @ fp @ ex" and ip: "ip \<noteq> []" "list_all isDigit ip"
    and fp: "fp = [] \<or> (\<exists>ds. fp = CHR ''.'' # ds \<and> list_all isDigit ds)"
    and ex: "ex = [] \<or> (\<exists>sg ds. ex = CHR ''e'' # sg # ds \<and> (sg = CHR ''+'' \<or> sg = CHR ''-'')
                        \<and> ds \<noteq> [] \<and> list_all isDigit ds)"
    unfolding decimalShape_def by blast
  have 1: "\<forall>c \<in> set ip. \<not> isWhiteSpace c"
    using ip(2) digit_not_space by (auto simp: list_all_iff)
  have 2: "\<forall>c \<in> set fp. \<not> isWhiteSpace c"
    using fp digit_not_space space_facts by (auto simp: list_all_iff)
  have 3: "\<forall>c \<in> set ex. \<not> isWhiteSpace c"
    using ex digit_not_space space_facts by (auto simp: list_all_iff)
  have "isDigit (hd s)"
    using ip s by (cases ip) simp_all
  then show ?thesis
    using s ip(1) 1 2 3 by auto
qed






lemma isFinite_jsNeg: "isFinite (jsNeg v) = isFinite v"
  by (cases v) simp_all


lemma pow10_powi: "pow10 e = 10 powi e"
  by (simp add: pow10_def power_int_def power_one_over)

lemma pow10_pos: "0 < pow10 e"
  by (simp add: pow10_def)

lemma pow10_diff: "pow10 (a - b) = pow10 a / pow10 b"
  by (simp add: pow10_powi power_int_diff)

lemma pow10_nat: "pow10 (int k) = 10 ^ k"
  by (simp add: pow10_def)

lemma decimalExponent_le:
  assumes "0 < x"
  shows "pow10 (decimalExponent x) \<le> x"
proof (cases "1 \<le> x")
  case True
  let ?L = "length (digitsOf \<lfloor>x\<rfloor>)"
  have fl: "1 \<le> \<lfloor>x\<rfloor>"
    using True by simp
  have L: "?L \<noteq> 0"
    using digitsOf_nonempty by simp
  have "10 ^ (?L - 1) \<le> \<lfloor>x\<rfloor>"
    using fl by (rule digitsOf_lower)
  then have "(of_int (10 ^ (?L - 1)) :: rat) \<le> of_int \<lfloor>x\<rfloor>"
    by (simp only: of_int_le_iff)
  also have "\<dots> \<le> x"
    by simp
  finally have "(10::rat) ^ (?L - 1) \<le> x"
    by simp
  moreover have "decimalExponent x = int (?L - 1)"
    using True by (simp add: decimalExponent_def of_nat_diff Suc_le_eq digitsOf_nonempty)
  ultimately show ?thesis
    by (simp only: pow10_nat)
next
  case False
  let ?c = "\<lceil>1 / x\<rceil> - 1"
  let ?L = "length (digitsOf ?c)"
  have "1 < 1 / x"
    using False assms by simp
  then have "of_int 1 < 1 / x"
    by (simp only: of_int_1)
  then have "1 < \<lceil>1 / x\<rceil>"
    by (simp only: less_ceiling_iff)
  then have c: "0 \<le> ?c"
    by linarith
  have "?c < 10 ^ ?L"
    using c by (rule digitsOf_upper)
  then have "\<lceil>1 / x\<rceil> \<le> 10 ^ ?L"
    by linarith
  then have b: "(of_int \<lceil>1 / x\<rceil> :: rat) \<le> of_int (10 ^ ?L)"
    by (simp only: of_int_le_iff)
  have a: "1 / x \<le> of_int \<lceil>1 / x\<rceil>"
    by (rule le_of_int_ceiling)
  have "1 / x \<le> of_int (10 ^ ?L)"
    using a b by (rule order_trans)
  then have "1 / x \<le> 10 ^ ?L"
    by simp
  then have "1 \<le> 10 ^ ?L * x"
    using assms by (simp add: field_simps)
  then have "1 / 10 ^ ?L \<le> x"
    by (simp add: field_simps)
  moreover have "pow10 (decimalExponent x) = 1 / 10 ^ ?L"
    using False by (simp add: decimalExponent_def pow10_def)
  ultimately show ?thesis
    by simp
qed

lemma mantissa_lower:
  assumes "0 < x"
  shows "10 ^ 16 \<le> \<lfloor>x / pow10 (decimalExponent x - 16) + 1 / 2\<rfloor>"
proof -
  let ?e = "decimalExponent x"
  have p: "pow10 (?e - 16) = pow10 ?e / 10 ^ 16"
    using pow10_diff[of ?e 16] pow10_nat[of 16] by simp
  have "pow10 ?e \<le> x" and "0 < pow10 ?e"
    using assms by (simp_all add: decimalExponent_le pow10_pos)
  then have "(10::rat) ^ 16 \<le> x / pow10 (?e - 16)"
    by (simp add: p pos_le_divide_eq)
  then have "of_int (10 ^ 16) \<le> x / pow10 (?e - 16) + 1 / 2"
    by simp
  then show ?thesis
    by (simp only: le_floor_iff)
qed

lemma positiveToString_shape:
  assumes "0 < x"
  shows "decimalShape (positiveToString x)"
proof -
  define e0 where "e0 = decimalExponent x"
  define m0 where "m0 = \<lfloor>x / pow10 (e0 - 16) + 1 / 2\<rfloor>"
  define m where "m = (if 10 ^ 17 \<le> m0 then m0 div 10 else m0)"
  define e where "e = (if 10 ^ 17 \<le> m0 then e0 + 1 else e0)"
  define s where "s = stripTrailingZeros (digitsOf m)"
  define k where "k = int (length s)"
  define n where "n = e + 1"
  define ex where "ex = CHR ''e'' # (if n - 1 < 0 then CHR ''-'' else CHR ''+'') # digitsOf \<bar>n - 1\<bar>"
  have unfolded: "positiveToString x =
      (if k \<le> n \<and> n \<le> 21 then s @ replicate (nat (n - k)) (CHR ''0'')
       else if 0 < n \<and> n \<le> 21 then take (nat n) s @ ''.'' @ drop (nat n) s
       else if - 6 < n \<and> n \<le> 0 then ''0.'' @ replicate (nat (- n)) (CHR ''0'') @ s
       else if k = 1 then s @ ex
       else take 1 s @ ''.'' @ drop 1 s @ ex)"
    by (simp add: positiveToString_def Let_def e0_def m0_def m_def e_def s_def k_def n_def ex_def)
  have "10 ^ 16 \<le> m0"
    unfolding m0_def e0_def using assms by (rule mantissa_lower)
  then have "1 \<le> m"
    by (auto simp: m_def; linarith)
  then have "hd (digitsOf m) \<noteq> CHR ''0''"
    by (rule digitsOf_hd)
  then have s_ne: "s \<noteq> []"
    unfolding s_def using digitsOf_nonempty by (intro stripTrailingZeros_nonempty)
  have s_dig: "list_all isDigit s"
    unfolding s_def by (intro stripTrailingZeros_digits digitsOf_digits)
  have exok: "\<exists>sg ds. ex = CHR ''e'' # sg # ds \<and> (sg = CHR ''+'' \<or> sg = CHR ''-'')
                \<and> ds \<noteq> [] \<and> list_all isDigit ds"
    unfolding ex_def using digitsOf_nonempty digitsOf_digits by auto
  have zeros: "list_all isDigit (replicate j (CHR ''0''))" for j
    by (simp add: list_all_iff digit_facts)
  have sub: "list_all isDigit (take j s)" "list_all isDigit (drop j s)" for j
    using s_dig by (auto simp: list_all_iff dest: in_set_takeD in_set_dropD)
  have l6: "decimalShape ((s @ replicate j (CHR ''0'')) @ [] @ [])" for j
    using s_ne s_dig zeros by (intro decimalShapeI) simp_all
  have l7: "decimalShape (take j s @ (CHR ''.'' # drop j s) @ [])" if "0 < j" for j
    using s_ne that sub by (intro decimalShapeI) simp_all
  have l8: "decimalShape (''0'' @ (CHR ''.'' # replicate j (CHR ''0'') @ s) @ [])" for j
    using s_dig zeros by (intro decimalShapeI) (simp_all add: digit_facts)
  have l9a: "decimalShape (s @ [] @ ex)"
    using s_ne s_dig exok by (intro decimalShapeI) simp_all
  have l9b: "decimalShape (take 1 s @ (CHR ''.'' # drop 1 s) @ ex)"
    using s_ne sub exok by (intro decimalShapeI) simp_all
  show ?thesis
  proof (cases "k \<le> n \<and> n \<le> 21")
    case True
    have "positiveToString x = s @ replicate (nat (n - k)) (CHR ''0'')"
      by (simp only: unfolded if_P[OF True])
    then show ?thesis
      using l6[of "nat (n - k)"] by simp
  next
    case c1: False
    show ?thesis
    proof (cases "0 < n \<and> n \<le> 21")
      case True
      have "positiveToString x = take (nat n) s @ ''.'' @ drop (nat n) s"
        by (simp only: unfolded if_not_P[OF c1] if_P[OF True])
      then show ?thesis
        using True l7[of "nat n"] by simp
    next
      case c2: False
      show ?thesis
      proof (cases "- 6 < n \<and> n \<le> 0")
        case True
        have "positiveToString x = ''0.'' @ replicate (nat (- n)) (CHR ''0'') @ s"
          by (simp only: unfolded if_not_P[OF c1] if_not_P[OF c2] if_P[OF True])
        then show ?thesis
          using l8[of "nat (- n)"] by simp
      next
        case c3: False
        have "positiveToString x = (if k = 1 then s @ ex else take 1 s @ ''.'' @ drop 1 s @ ex)"
          by (simp only: unfolded if_not_P[OF c1] if_not_P[OF c2] if_not_P[OF c3])
        then show ?thesis
          using l9a l9b by (cases "k = 1") simp_all
      qed
    qed
  qed
qed

lemma numToString_trimmed: "trimmedNonEmpty (numToString (Fin x))"
proof -
  consider "x = 0" | "x < 0" | "0 < x"
    by linarith
  then show ?thesis
  proof cases
    case 1
    then show ?thesis
      by (simp add: numToString_def trimmedNonEmpty_def isWhiteSpace_def)
  next
    case 2
    then have "decimalShape (positiveToString (- x))"
      by (intro positiveToString_shape) simp
    then have "positiveToString (- x) \<noteq> []" "\<forall>c \<in> set (positiveToString (- x)). \<not> isWhiteSpace c"
      using decimalShape_no_space by blast+
    then have "trimmedNonEmpty (CHR ''-'' # positiveToString (- x))"
      using space_facts by (intro no_space_trimmed) auto
    then show ?thesis
      using 2 by (simp add: numToString_def)
  next
    case 3
    then have "decimalShape (positiveToString x)"
      by (rule positiveToString_shape)
    then have "trimmedNonEmpty (positiveToString x)"
      using decimalShape_no_space by (intro no_space_trimmed) blast+
    then show ?thesis
      using 3 by (simp add: numToString_def)
  qed
qed




section \<open>The value of a \<open>toFixed(1)\<close> rendering\<close>


























section \<open>The normaliser\<close>

lemma numberVal_finite: "finiteOrAbsent (numberVal v)"
  by (cases v) (simp_all add: finiteOrAbsent_def Let_def)

lemma stringVal_trimmed: "textOrAbsent (stringVal v)"
proof (cases v)
  case (JStr s)
  then show ?thesis
    by (simp add: textOrAbsent_def trim_trimmed)
next
  case (JNum x)
  then show ?thesis
    by (cases x) (simp_all add: textOrAbsent_def numToString_trimmed)
qed (simp_all add: textOrAbsent_def)

lemma stringVal_Some: "stringVal v = Some s \<Longrightarrow> trimmedNonEmpty s"
  using stringVal_trimmed[of v] by (simp add: textOrAbsent_def)

lemma stringVal_of_trimmed: "trimmedNonEmpty s \<Longrightarrow> stringVal (JStr s) = Some s"
  using trim_of_trimmed[of s] by (simp add: trimmedNonEmpty_def)

lemma stringVal_idem: "stringVal (strField (stringVal v)) = stringVal v"
proof (cases "stringVal v")
  case None
  then show ?thesis by (simp add: strField_def)
next
  case (Some s)
  then show ?thesis
    using stringVal_of_trimmed[OF stringVal_Some[OF Some]] by (simp add: strField_def)
qed

lemma numberVal_idem: "numberVal (numField (numberVal v)) = numberVal v"
  by (cases v) (simp_all add: numField_def Let_def)

lemma fullName_idem:
  "(case stringVal (JStr (case stringVal v of None \<Rightarrow> [] | Some s \<Rightarrow> s)) of
      None \<Rightarrow> [] | Some s \<Rightarrow> s)
   = (case stringVal v of None \<Rightarrow> [] | Some s \<Rightarrow> s)"
proof (cases "stringVal v")
  case None
  then show ?thesis by (simp add: trim_def)
next
  case (Some s)
  then show ?thesis
    using stringVal_of_trimmed[OF stringVal_Some[OF Some]] by simp
qed

lemma fullName_trimmed:
  "(case stringVal v of None \<Rightarrow> [] | Some s \<Rightarrow> s) = []
   \<or> trimmedNonEmpty (case stringVal v of None \<Rightarrow> [] | Some s \<Rightarrow> s)"
  using stringVal_Some[of v] by (cases "stringVal v") simp_all

lemma normalize_fields:
  "full_name (normalizeOnboardingData raw)
   = (case stringVal (field (case raw of None \<Rightarrow> Map.empty | Some r \<Rightarrow> r) ''full_name'') of
        None \<Rightarrow> [] | Some s \<Rightarrow> s)"
  "age (normalizeOnboardingData raw)
   = numberVal (field (case raw of None \<Rightarrow> Map.empty | Some r \<Rightarrow> r) ''age'')"
  "sex (normalizeOnboardingData raw)
   = stringVal (field (case raw of None \<Rightarrow> Map.empty | Some r \<Rightarrow> r) ''sex'')"
  "height (normalizeOnboardingData raw)
   = numberVal (field (case raw of None \<Rightarrow> Map.empty | Some r \<Rightarrow> r) ''height'')"
  "weight (normalizeOnboardingData raw)
   = numberVal (field (case raw of None \<Rightarrow> Map.empty | Some r \<Rightarrow> r) ''weight'')"
  "blood_type (normalizeOnboardingData raw)
   = stringVal (field (case raw of None \<Rightarrow> Map.empty | Some r \<Rightarrow> r) ''blood_type'')"
  "allergies (normalizeOnboardingData raw)
   = stringVal (field (case raw of None \<Rightarrow> Map.empty | Some r \<Rightarrow> r) ''allergies'')"
  "conditions (normalizeOnboardingData raw)
   = stringVal (field (case raw of None \<Rightarrow> Map.empty | Some r \<Rightarrow> r) ''conditions'')"
  "medications (normalizeOnboardingData raw)
   = stringVal (field (case raw of None \<Rightarrow> Map.empty | Some r \<Rightarrow> r) ''medications'')"
  "medical_history (normalizeOnboardingData raw)
   = stringVal (field (case raw of None \<Rightarrow> Map.empty | Some r \<Rightarrow> r) ''medical_history'')"
  "past_reports (normalizeOnboardingData raw)
   = stringVal (field (case raw of None \<Rightarrow> Map.empty | Some r \<Rightarrow> r) ''past_reports'')"
  "prescriptions (normalizeOnboardingData raw)
   = stringVal (field (case raw of None \<Rightarrow> Map.empty | Some r \<Rightarrow> r) ''prescriptions'')"
  "symptoms_current (normalizeOnboardingData raw)
   = stringVal (field (case raw of None \<Rightarrow> Map.empty | Some r \<Rightarrow> r) ''symptoms_current'')"
  "symptoms_past (normalizeOnboardingData raw)
   = stringVal (field (case raw of None \<Rightarrow> Map.empty | Some r \<Rightarrow> r) ''symptoms_past'')"
  "location (normalizeOnboardingData raw)
   = stringVal (field (case raw of None \<Rightarrow> Map.empty | Some r \<Rightarrow> r) ''location'')"
  "smoking_status (normalizeOnboardingData raw)
   = stringVal (field (case raw of None \<Rightarrow> Map.empty | Some r \<Rightarrow> r) ''smoking_status'')"
  "alcohol_consumption (normalizeOnboardingData raw)
   = stringVal (field (case raw of None \<Rightarrow> Map.empty | Some r \<Rightarrow> r) ''alcohol_consumption'')"
  "exercise_frequency (normalizeOnboardingData raw)
   = stringVal (field (case raw of None \<Rightarrow> Map.empty | Some r \<Rightarrow> r) ''exercise_frequency'')"
  "diet_type (normalizeOnboardingData raw)
   = stringVal (field (case raw of None \<Rightarrow> Map.empty | Some r \<Rightarrow> r) ''diet_type'')"
  "sleep_hours (normalizeOnboardingData raw)
   = numberVal (field (case raw of None \<Rightarrow> Map.empty | Some r \<Rightarrow> r) ''sleep_hours'')"
  "stress_level (normalizeOnboardingData raw)
   = stringVal (field (case raw of None \<Rightarrow> Map.empty | Some r \<Rightarrow> r) ''stress_level'')"
  "family_history (normalizeOnboardingData raw)
   = stringVal (field (case raw of None \<Rightarrow> Map.empty | Some r \<Rightarrow> r) ''family_history'')"
  "health_goals (normalizeOnboardingData raw)
   = stringVal (field (case raw of None \<Rightarrow> Map.empty | Some r \<Rightarrow> r) ''health_goals'')"
  "emergency_contact_name (normalizeOnboardingData raw)
   = stringVal (field (case raw of None \<Rightarrow> Map.empty | Some r \<Rightarrow> r) ''emergency_contact_name'')"
  "emergency_contact_phone (normalizeOnboardingData raw)
   = stringVal (field (case raw of None \<Rightarrow> Map.empty | Some r \<Rightarrow> r) ''emergency_contact_phone'')"
  "blood_pressure (normalizeOnboardingData raw)
   = stringVal (field (case raw of None \<Rightarrow> Map.empty | Some r \<Rightarrow> r) ''blood_pressure'')"
  "heart_rate (normalizeOnboardingData raw)
   = numberVal (field (case raw of None \<Rightarrow> Map.empty | Some r \<Rightarrow> r) ''heart_rate'')"
  "temperature_c (normalizeOnboardingData raw)
   = numberVal (field (case raw of None \<Rightarrow> Map.empty | Some r \<Rightarrow> r) ''temperature_c'')"
  "spo2 (normalizeOnboardingData raw)
   = numberVal (field (case raw of None \<Rightarrow> Map.empty | Some r \<Rightarrow> r) ''spo2'')"
  "diagnosis (normalizeOnboardingData raw) = None"
  "treatment_plan (normalizeOnboardingData raw) = None"
  "doctor_notes (normalizeOnboardingData raw) = None"
  "HealthSnapshot.more (normalizeOnboardingData raw) = ()"
  by (simp_all add: normalizeOnboardingData_def Let_def)

text \<open>
  C3. Whatever the raw record (or none at all), in the normalised snapshot every numeric
  field is absent or a finite number, every text field is absent or a text that is not
  empty and has no white space at either end, and \<open>full_name\<close> is such a text or empty.
\<close>

theorem normalize_invariant: "snapshotInvariant (normalizeOnboardingData raw)"
  unfolding snapshotInvariant_def numericFields_def textFields_def
  by (simp add: normalize_fields numberVal_finite stringVal_trimmed fullName_trimmed)
    (simp add: textOrAbsent_def)

lemma asRecord_lookup:
  "field (asRecord d) ''full_name'' = JStr (full_name d)"
  "field (asRecord d) ''age'' = numField (age d)"
  "field (asRecord d) ''sex'' = strField (sex d)"
  "field (asRecord d) ''height'' = numField (height d)"
  "field (asRecord d) ''weight'' = numField (weight d)"
  "field (asRecord d) ''blood_type'' = strField (blood_type d)"
  "field (asRecord d) ''allergies'' = strField (allergies d)"
  "field (asRecord d) ''conditions'' = strField (conditions d)"
  "field (asRecord d) ''medications'' = strField (medications d)"
  "field (asRecord d) ''medical_history'' = strField (medical_history d)"
  "field (asRecord d) ''past_reports'' = strField (past_reports d)"
  "field (asRecord d) ''prescriptions'' = strField (prescriptions d)"
  "field (asRecord d) ''symptoms_current'' = strField (symptoms_current d)"
  "field (asRecord d) ''symptoms_past'' = strField (symptoms_past d)"
  "field (asRecord d) ''location'' = strField (location d)"
  "field (asRecord d) ''smoking_status'' = strField (smoking_status d)"
  "field (asRecord d) ''alcohol_consumption'' = strField (alcohol_consumption d)"
  "field (asRecord d) ''exercise_frequency'' = strField (exercise_frequency d)"
  "field (asRecord d) ''diet_type'' = strField (diet_type d)"
  "field (asRecord d) ''sleep_hours'' = numField (sleep_hours d)"
  "field (asRecord d) ''stress_level'' = strField (stress_level d)"
  "field (asRecord d) ''family_history'' = strField (family_history d)"
  "field (asRecord d) ''health_goals'' = strField (health_goals d)"
  "field (asRecord d) ''emergency_contact_name'' = strField (emergency_contact_name d)"
  "field (asRecord d) ''emergency_contact_phone'' = strField (emergency_contact_phone d)"
  "field (asRecord d) ''blood_pressure'' = strField (blood_pressure d)"
  "field (asRecord d) ''heart_rate'' = numField (heart_rate d)"
  "field (asRecord d) ''temperature_c'' = numField (temperature_c d)"
  "field (asRecord d) ''spo2'' = numField (spo2 d)"
  by (simp_all add: asRecord_def field_def)

text \<open>
  C8. Normalising is idempotent: the snapshot produced by the normaliser, handed to the
  normaliser again, comes back unchanged in every field. Numeric fields are numbers and
  pass through as they are; text fields are already trimmed and non-empty.
\<close>

theorem normalize_idempotent:
  "normalizeOnboardingData (Some (asRecord (normalizeOnboardingData raw)))
   = normalizeOnboardingData raw"
proof (rule HealthSnapshot.equality)
  show "full_name (normalizeOnboardingData (Some (asRecord (normalizeOnboardingData raw))))
        = full_name (normalizeOnboardingData raw)"
    by (simp only: normalize_fields(1) option.case asRecord_lookup(1) fullName_idem)
qed (simp_all add: normalize_fields asRecord_lookup stringVal_idem numberVal_idem)

lemma numberVal_cases:
  "numberVal (JNum x) = (if isFinite x then Some x else None)"
  "numberVal (JStr s) = (if isFinite (Number (trim s)) then Some (Number (trim s)) else None)"
  "numberVal JUndefined = None"
  "numberVal JNull = None"
  "numberVal (JBool b) = None"
  "numberVal JOther = None"
  by (simp_all add: Let_def)

text \<open>
  C2 does not hold of the code: an empty or blank string given for a numeric field is
  not dropped. \<open>Number\<close> reads the empty string as \<open>0\<close>, which is finite, so the field
  becomes \<open>0\<close>. (The onboarding form's own \<open>numberOrUndefined\<close> tests for the empty
  string before converting; \<open>numberVal\<close> does not.)
\<close>

theorem numberVal_blank_is_zero:
  "numberVal (JStr '''') = Some (Fin 0)
   \<and> numberVal (JStr ''   '') = Some (Fin 0)
   \<and> age (normalizeOnboardingData (Some (map_of [(''age'', JStr '''')]))) = Some (Fin 0)
   \<and> sleep_hours (normalizeOnboardingData (Some (map_of [(''sleep_hours'', JStr '' '')])))
      = Some (Fin 0)"
  by code_simp

end
